theory Spec2Isabelle
  imports Main "HOL-Library.Word"
begin

section \<open>Oracle Kubernetes Engine cluster lifecycle (cluster/oke.go)\<close>

text \<open>
  A shallow embedding of \<^verbatim>\<open>cluster/oke.go\<close>. Go's \<^verbatim>\<open>uint\<close> and \<^verbatim>\<open>int\<close> are taken at
  their 64-bit width: both are \<open>64 word\<close>, read with \<open>unat\<close> (uint) or \<open>sint\<close> (int), and
  \<open>+\<close>, \<open>*\<close> wrap around as they do in Go. On words \<open>div\<close> and \<open>mod\<close> are the unsigned
  operations, which is what Go's \<^verbatim>\<open>/\<close> and \<^verbatim>\<open>%\<close> are on \<^verbatim>\<open>uint\<close>.
\<close>

type_synonym uint = "64 word"
type_synonym goint = "64 word"

subsection \<open>Worker-subnet distribution\<close>

text \<open>
  \<^verbatim>\<open>network.NetworkValues\<close> is declared outside this file; the code reads two of its fields,
  both slices of subnet ids.
\<close>

record NetworkValues =
  LBSubnetIDs :: "string list"
  WNSubnetIDs :: "string list"

text \<open>
  The slice expression \<^verbatim>\<open>s[0:hi]\<close>. Go panics when \<open>hi\<close> is beyond the capacity of \<open>s\<close>; the
  model has no capacities and panics (\<open>None\<close>) as soon as \<open>hi\<close> is beyond the length.
\<close>

definition slice_to :: "'a list \<Rightarrow> nat \<Rightarrow> 'a list option" where
  "slice_to s hi = (if hi \<le> length s then Some (take hi s) else None)"

text \<open>
  \<^verbatim>\<open>GetPoolQuantityValues\<close> (lines 528-545). The named results \<^verbatim>\<open>qps\<close> and \<^verbatim>\<open>subnetIDS\<close> start
  at their zero values, \<open>0\<close> and the nil slice, which the bare \<^verbatim>\<open>return\<close> hands back. The
  assignments that follow are kept in the order of the source: the one-subnet values first,
  overwritten by the branch taken. \<open>None\<close> is a slice-bounds panic.
\<close>

definition GetPoolQuantityValues :: "uint \<Rightarrow> NetworkValues \<Rightarrow> (uint \<times> string list) option" where
  "GetPoolQuantityValues count networkValues =
     (if count = 0 \<or> length (WNSubnetIDs networkValues) < 3 then Some (0, [])
      else
        (case slice_to (WNSubnetIDs networkValues) 1 of
           None \<Rightarrow> None
         | Some s1 \<Rightarrow>
             (if count mod 3 = 0 then
                (case slice_to (WNSubnetIDs networkValues) 3 of
                   None \<Rightarrow> None
                 | Some s3 \<Rightarrow> Some (count div 3, s3))
              else if count mod 2 = 0 then
                (case slice_to (WNSubnetIDs networkValues) 2 of
                   None \<Rightarrow> None
                 | Some s2 \<Rightarrow> Some (count div 2, s2))
              else Some (count, s1))))"

subsection \<open>The stored node pool and its computed size\<close>

text \<open>
  \<^verbatim>\<open>modelOracle.NodePool\<close> is declared outside this file; these are the fields the code
  reads. \<open>np_Subnets\<close> holds one entry per assigned subnet (the code only takes its length),
  \<open>np_CreatedAt\<close> is a time in seconds.
\<close>

record NodePool =
  np_Name :: string
  np_Shape :: string
  np_Image :: string
  np_Version :: string
  np_QuantityPerSubnet :: uint
  np_Subnets :: "string list"
  np_Delete :: bool
  np_CreatedAt :: int
  np_CreatedBy :: uint

text \<open>
  \<^verbatim>\<open>getNodeCount\<close> (lines 233-235): \<^verbatim>\<open>int(np.QuantityPerSubnet) * len(np.Subnets)\<close>, a product
  of two \<^verbatim>\<open>int\<close>s, which wraps around at 64 bits.
\<close>

definition getNodeCount :: "NodePool \<Rightarrow> goint" where
  "getNodeCount np = np_QuantityPerSubnet np * word_of_nat (length (np_Subnets np))"

subsection \<open>Request and stored data\<close>

text \<open>
  The request types \<^verbatim>\<open>oracle.Cluster\<close> and its node pool are declared outside this file.
  The code reaches a pool's \<^verbatim>\<open>Count\<close> and writes through the setters \<^verbatim>\<open>SetVCNID\<close>,
  \<^verbatim>\<open>SetLBSubnetID1\<close>, \<^verbatim>\<open>SetLBSubnetID2\<close>, \<^verbatim>\<open>SetQuantityPerSubnet\<close> and \<^verbatim>\<open>SetSubnetIDs\<close>; each
  setter is taken to store its argument in a field of its own. \<^verbatim>\<open>NodePools\<close> is ranged over
  by value only, so it is a list of keyed pool pointers, \<open>None\<close> being the nil pointer.
\<close>

record ReqNodePool =
  rnp_Count :: uint
  rnp_quantityPerSubnet :: uint
  rnp_subnetIds :: "string list"

record ReqCluster =
  rc_NodePools :: "(string \<times> ReqNodePool option) list"
  rc_vcnID :: string
  rc_lbSubnetID1 :: string
  rc_lbSubnetID2 :: string

record CreateClusterRequest =
  ccr_Name :: string
  ccr_Location :: string
  ccr_Cloud :: string
  ccr_SecretId :: string
  ccr_CreateClusterOKE :: ReqCluster

record UpdateClusterRequest =
  ucr_OKE :: ReqCluster

text \<open>
  \<^verbatim>\<open>modelOracle.Cluster\<close>, the provider part of the stored aggregate, and
  \<^verbatim>\<open>model.ClusterModel\<close>, the aggregate: the fields this file reads or writes.
  \<^verbatim>\<open>NodePools\<close> is a slice of pool pointers, and the records leave its representation \<open>'p\<close>
  open. Where the code works on the one cluster that owns the pools, the list holds the
  pools themselves, \<open>None\<close> being the nil pointer: these are \<open>Cluster\<close>, \<open>ClusterModel\<close> and
  \<open>OKECluster\<close>. Where a second struct shares the pools with the stored cluster, as in
  \<^verbatim>\<open>UpdateCluster\<close>, the list is a slice into a store: \<open>ClusterRef\<close> and \<open>OKEClusterRef\<close> below.
\<close>

record 'p Cluster_of =
  cl_Version :: string
  cl_VCNID :: string
  cl_OCID :: string
  cl_Delete :: bool
  cl_NodePools :: 'p

record 'p ClusterModel_of =
  cm_ID :: uint
  cm_UID :: string
  cm_CreatedAt :: int
  cm_CreatedBy :: uint
  cm_Name :: string
  cm_Location :: string
  cm_Cloud :: string
  cm_Distribution :: string
  cm_OrganizationId :: uint
  cm_SecretId :: string
  cm_ConfigSecretId :: string
  cm_SshSecretId :: string
  cm_Status :: string
  cm_StatusMessage :: string
  cm_OKE :: "'p Cluster_of"

record 'p OKECluster_of =
  modelCluster :: "'p ClusterModel_of"
  APIEndpoint :: string

type_synonym Cluster = "NodePool option list Cluster_of"
type_synonym ClusterModel = "NodePool option list ClusterModel_of"
type_synonym OKECluster = "NodePool option list OKECluster_of"

subsection \<open>Shared pools\<close>

text \<open>
  The store holds what two structs can share: the pool objects, by address, and the
  backing arrays of pool-pointer slices, by address and index; \<open>st_next\<close> is the address
  of the next array to be made. A slice is a backing array and a length. Every address
  holds a pool, so that only the nil pointer fails to dereference, as in Go.
\<close>

type_synonym addr = nat

record slice =
  sl_array :: addr
  sl_len :: nat

record store =
  st_pools :: "addr \<Rightarrow> NodePool"
  st_arrays :: "addr \<Rightarrow> nat \<Rightarrow> addr option"
  st_next :: addr

type_synonym ClusterRef = "slice Cluster_of"







subsection \<open>Responses\<close>

record CreatorBaseFields =
  cbf_CreatedAt :: string
  cbf_CreatorName :: string
  cbf_CreatorId :: uint

record NodePoolStatus =
  nps_Autoscaling :: bool
  nps_Count :: goint
  nps_InstanceType :: string
  nps_MinCount :: goint
  nps_MaxCount :: goint
  nps_Image :: string
  nps_Version :: string

record GetClusterStatusResponse =
  gsr_Status :: string
  gsr_StatusMessage :: string
  gsr_Name :: string
  gsr_Location :: string
  gsr_Cloud :: string
  gsr_Distribution :: string
  gsr_Version :: string
  gsr_ResourceID :: uint
  gsr_CreatorBaseFields :: CreatorBaseFields
  gsr_NodePools :: "string \<rightharpoonup> NodePoolStatus"

record NodeDetails =
  nd_CreatorBaseFields :: CreatorBaseFields
  nd_Version :: string
  nd_Count :: goint
  nd_MinCount :: goint
  nd_MaxCount :: goint

record DetailsResponse =
  dr_CreatorBaseFields :: CreatorBaseFields
  dr_Name :: string
  dr_Id :: uint
  dr_Location :: string
  dr_MasterVersion :: string
  dr_NodePools :: "string \<rightharpoonup> NodeDetails"
  dr_Status :: string

subsection \<open>Errors and panics\<close>

text \<open>
  Go errors as values. \<open>Errorf\<close> is \<^verbatim>\<open>fmt.Errorf\<close> with a constant message, \<open>New\<close> is
  \<^verbatim>\<open>errors.New\<close>, \<open>Wrap\<close> and \<open>WithMessage\<close> are the two wrappers of \<^verbatim>\<open>github.com/pkg/errors\<close>
  around a non-nil error, and \<open>Upstream\<close> is an error value made by a collaborator outside
  this file. A nil error is \<open>None\<close>.
\<close>

datatype error =
    Errorf string
  | New string
  | ErrorClusterNotReady
  | Upstream string
  | Wrap error string
  | WithMessage error string

text \<open>The two errors of this file that the specification names by kind.\<close>

definition ConfigError :: error where
  "ConfigError = Errorf ''Invalid network config: there must be 2 loadbalancer subnets!''"

definition ResourceError :: error where
  "ResourceError = Errorf ''Invalid VCN!''"

text \<open>An error that carries the context of a stage: one built by a wrapper.\<close>

fun is_wrapped :: "error \<Rightarrow> bool" where
  "is_wrapped (Wrap e msg) = True"
| "is_wrapped (WithMessage e msg) = True"
| "is_wrapped e = False"

text \<open>A call either returns or panics (a nil-pointer dereference, a slice out of range).\<close>

datatype 'a exec = Returns 'a | Panics

subsection \<open>Collaborators\<close>

text \<open>
  Every call that leaves this file is recorded, in order, in a history of events. What a
  collaborator answers is a function of the history so far and of the arguments, so an
  environment may answer the same call differently at different times. The handles that
  the collaborators hand out (the OCI client, the managers) carry nothing the code reads
  and are left out.
\<close>

record Vcn =
  vcn_Id :: "string option"

record LiveCluster =
  lc_LifecycleState :: string

datatype event =
    Call_getSecret
  | Call_NewOCI
  | Call_ChangeRegion string
  | Call_NewContainerEngineClient
  | Call_GetCluster string
  | Call_vcn_Create string
  | Call_vcn_Delete string
  | Call_vcn_GetNetworkValues string
  | Call_ManageOKECluster Cluster
  | Call_getConfig
  | Call_GetK8sConnection
  | Call_CreateClusterRoleBinding string string

type_synonym hist = "event list"

text \<open>
  The collaborators, and the three constants declared in other packages.
  \<open>ManageOKECluster\<close> is the manager called on the stored cluster itself (lines 88 and 150):
  it receives a pointer to it and may write to it, so it answers with the cluster as it
  leaves it. \<open>ManageOKECluster_shared\<close> is the same manager called on the local struct of
  \<^verbatim>\<open>UpdateCluster\<close> (line 120), and \<open>CreateModelFromUpdateRequest\<close> is the constructor that
  makes this struct from a copy of the stored one: both may write to every pool and every
  slice cell in the store, and answer with the store as they leave it, with or without an
  error. \<open>CreateModelFromCreateRequest\<close> and \<open>NewCreatorBaseFields\<close> are functions of their
  arguments.
\<close>

record env =
  getSecret :: "hist \<Rightarrow> ClusterModel \<Rightarrow> error + (string \<times> string) list"
  NewOCI :: "hist \<Rightarrow> (string \<times> string) list \<Rightarrow> error option"
  ChangeRegion :: "hist \<Rightarrow> string \<Rightarrow> error option"
  NewContainerEngineClient :: "hist \<Rightarrow> error option"
  GetCluster :: "hist \<Rightarrow> string \<Rightarrow> error + LiveCluster"
  vcn_Create :: "hist \<Rightarrow> string \<Rightarrow> error + Vcn"
  vcn_Delete :: "hist \<Rightarrow> string \<Rightarrow> error option"
  vcn_GetNetworkValues :: "hist \<Rightarrow> string \<Rightarrow> error + NetworkValues"
  ManageOKECluster :: "hist \<Rightarrow> Cluster \<Rightarrow> Cluster \<times> error option"
  getConfig :: "hist \<Rightarrow> ClusterModel \<Rightarrow> error + string"
  GetK8sConnection :: "hist \<Rightarrow> string \<Rightarrow> error option"
  CreateClusterRoleBinding :: "hist \<Rightarrow> string \<Rightarrow> string \<Rightarrow> error option"
  CreateModelFromCreateRequest :: "CreateClusterRequest \<Rightarrow> uint \<Rightarrow> error + Cluster"
  CreateModelFromUpdateRequest ::
    "store \<Rightarrow> ClusterRef \<Rightarrow> UpdateClusterRequest \<Rightarrow> uint \<Rightarrow> (error + ClusterRef) \<times> store"
  ManageOKECluster_shared :: "hist \<Rightarrow> store \<Rightarrow> ClusterRef \<Rightarrow> (ClusterRef \<times> store) \<times> error option"
  NewCreatorBaseFields :: "int \<Rightarrow> uint \<Rightarrow> CreatorBaseFields"
  pkgCluster_OKE :: string
  pkgCluster_Oracle :: string
  secretOracle_UserOCID :: string

subsection \<open>Cloud clients\<close>

text \<open>
  \<^verbatim>\<open>GetOCI\<close> (lines 432-447): the secret, then the client made from its values.
  \<^verbatim>\<open>SetLogger\<close> has no result and is not a recorded call.
\<close>

definition GetOCI :: "env \<Rightarrow> OKECluster \<Rightarrow> hist \<Rightarrow> error option \<times> hist" where
  "GetOCI env oke h =
     (case getSecret env h (modelCluster oke) of
        Inl err \<Rightarrow> (Some err, h @ [Call_getSecret])
      | Inr s \<Rightarrow>
          (case NewOCI env (h @ [Call_getSecret]) s of
             Some err \<Rightarrow> (Some err, h @ [Call_getSecret, Call_NewOCI])
           | None \<Rightarrow> (None, h @ [Call_getSecret, Call_NewOCI])))"

text \<open>\<^verbatim>\<open>GetOCIWithRegion\<close> (lines 450-460).\<close>

definition GetOCIWithRegion :: "env \<Rightarrow> OKECluster \<Rightarrow> string \<Rightarrow> hist \<Rightarrow> error option \<times> hist" where
  "GetOCIWithRegion env oke region h =
     (case GetOCI env oke h of
        (Some err, h1) \<Rightarrow> (Some err, h1)
      | (None, h1) \<Rightarrow> (ChangeRegion env h1 region, h1 @ [Call_ChangeRegion region]))"

text \<open>
  \<^verbatim>\<open>GetClusterManager\<close> (lines 421-429); \<^verbatim>\<open>NewClusterManager\<close> only stores the client.
\<close>

definition GetClusterManager :: "env \<Rightarrow> OKECluster \<Rightarrow> hist \<Rightarrow> error option \<times> hist" where
  "GetClusterManager env oke h =
     (case GetOCIWithRegion env oke (cm_Location (modelCluster oke)) h of
        (Some err, h1) \<Rightarrow> (Some err, h1)
      | (None, h1) \<Rightarrow> (None, h1))"

subsection \<open>The virtual network\<close>

text \<open>
  \<^verbatim>\<open>CreatePreconfiguredVCN\<close> (lines 463-483). The named result \<^verbatim>\<open>VCNID\<close> is the empty string
  on every error path; \<^verbatim>\<open>fmt.Sprintf("p-%s", name)\<close> is the prefix followed by the name.
\<close>

definition CreatePreconfiguredVCN ::
    "env \<Rightarrow> OKECluster \<Rightarrow> string \<Rightarrow> hist \<Rightarrow> (string \<times> error option) \<times> hist" where
  "CreatePreconfiguredVCN env oke name h =
     (case GetOCIWithRegion env oke (cm_Location (modelCluster oke)) h of
        (Some err, h1) \<Rightarrow> (([], Some err), h1)
      | (None, h1) \<Rightarrow>
          (case vcn_Create env h1 (''p-'' @ name) of
             Inl err \<Rightarrow> (([], Some err), h1 @ [Call_vcn_Create (''p-'' @ name)])
           | Inr vcn \<Rightarrow>
               (case vcn_Id vcn of
                  None \<Rightarrow> (([], Some (Errorf ''Invalid VCN!'')), h1 @ [Call_vcn_Create (''p-'' @ name)])
                | Some i \<Rightarrow> ((i, None), h1 @ [Call_vcn_Create (''p-'' @ name)]))))"

text \<open>\<^verbatim>\<open>DeletePreconfiguredVCN\<close> (lines 486-495).\<close>

definition DeletePreconfiguredVCN :: "env \<Rightarrow> OKECluster \<Rightarrow> string \<Rightarrow> hist \<Rightarrow> error option \<times> hist" where
  "DeletePreconfiguredVCN env oke VCNID h =
     (case GetOCIWithRegion env oke (cm_Location (modelCluster oke)) h of
        (Some err, h1) \<Rightarrow> (Some err, h1)
      | (None, h1) \<Rightarrow> (vcn_Delete env h1 VCNID, h1 @ [Call_vcn_Delete VCNID]))"

text \<open>
  The loop of \<^verbatim>\<open>PopulateNetworkValues\<close> (lines 518-522): every pool gets the values that
  \<^verbatim>\<open>GetPoolQuantityValues\<close> computes from its count. Reading \<^verbatim>\<open>np.Count\<close> through a nil
  pointer panics.
\<close>

fun populatePools ::
    "NetworkValues \<Rightarrow> (string \<times> ReqNodePool option) list \<Rightarrow> (string \<times> ReqNodePool option) list exec" where
  "populatePools networkValues [] = Returns []"
| "populatePools networkValues ((k, None) # nps) = Panics"
| "populatePools networkValues ((k, Some np) # nps) =
     (case GetPoolQuantityValues (rnp_Count np) networkValues of
        None \<Rightarrow> Panics
      | Some (quanityPerSubnet, subnetIDs) \<Rightarrow>
          (case populatePools networkValues nps of
             Panics \<Rightarrow> Panics
           | Returns nps' \<Rightarrow>
               Returns ((k, Some (np\<lparr>rnp_quantityPerSubnet := quanityPerSubnet,
                                      rnp_subnetIds := subnetIDs\<rparr>)) # nps')))"

text \<open>
  \<^verbatim>\<open>PopulateNetworkValues\<close> (lines 498-525). The request \<^verbatim>\<open>r\<close> is a pointer, taken to be
  non-nil: what the function has written by the time it returns is what the caller sees,
  with or without an error, so the request comes back in both cases.
\<close>

definition PopulateNetworkValues ::
    "env \<Rightarrow> OKECluster \<Rightarrow> ReqCluster \<Rightarrow> string \<Rightarrow> hist \<Rightarrow> ((ReqCluster \<times> error option) \<times> hist) exec" where
  "PopulateNetworkValues env oke r VCNID h =
     (case GetOCIWithRegion env oke (cm_Location (modelCluster oke)) h of
        (Some err, h1) \<Rightarrow> Returns ((r, Some err), h1)
      | (None, h1) \<Rightarrow>
          (case vcn_GetNetworkValues env h1 VCNID of
             Inl err \<Rightarrow> Returns ((r, Some err), h1 @ [Call_vcn_GetNetworkValues VCNID])
           | Inr networkValues \<Rightarrow>
               (let h2 = h1 @ [Call_vcn_GetNetworkValues VCNID];
                    r1 = r\<lparr>rc_vcnID := VCNID\<rparr>
                in if length (LBSubnetIDs networkValues) \<noteq> 2
                   then Returns ((r1, Some (Errorf ''Invalid network config: there must be 2 loadbalancer subnets!'')), h2)
                   else
                     (let r2 = r1\<lparr>rc_lbSubnetID1 := LBSubnetIDs networkValues ! 0,
                                   rc_lbSubnetID2 := LBSubnetIDs networkValues ! 1\<rparr>
                      in case populatePools networkValues (rc_NodePools r2) of
                           Panics \<Rightarrow> Panics
                         | Returns nps \<Rightarrow> Returns ((r2\<lparr>rc_NodePools := nps\<rparr>, None), h2)))))"

subsection \<open>Role binding\<close>

text \<open>
  \<^verbatim>\<open>setClusterAdminRights\<close> (lines 560-607). A Go map answers a missing key with the empty
  string.
\<close>

definition secret_value :: "(string \<times> string) list \<Rightarrow> string \<Rightarrow> string" where
  "secret_value vs k = (case map_of vs k of None \<Rightarrow> [] | Some v \<Rightarrow> v)"

definition setClusterAdminRights :: "env \<Rightarrow> OKECluster \<Rightarrow> string \<Rightarrow> hist \<Rightarrow> error option \<times> hist" where
  "setClusterAdminRights env oke name h =
     (case getConfig env h (modelCluster oke) of
        Inl err \<Rightarrow> (Some (Wrap err ''error getting k8s config''), h @ [Call_getConfig])
      | Inr kubeConfig \<Rightarrow>
          (case GetK8sConnection env (h @ [Call_getConfig]) kubeConfig of
             Some err \<Rightarrow>
               (Some (Wrap err ''error getting k8s client''), h @ [Call_getConfig, Call_GetK8sConnection])
           | None \<Rightarrow>
               (let h2 = h @ [Call_getConfig, Call_GetK8sConnection]
                in case getSecret env h2 (modelCluster oke) of
                     Inl err \<Rightarrow> (Some (Wrap err ''error getting secret''), h2 @ [Call_getSecret])
                   | Inr secret \<Rightarrow>
                       (let h3 = h2 @ [Call_getSecret]
                        in if secret_value secret (secretOracle_UserOCID env) = []
                           then (Some (New ''empty user OCID''), h3)
                           else
                             (case CreateClusterRoleBinding env h3 name (secret_value secret ''user_ocid'') of
                                Some err \<Rightarrow>
                                  (Some (Wrap err ''creating cluster role binding failed''),
                                   h3 @ [Call_CreateClusterRoleBinding name (secret_value secret ''user_ocid'')])
                              | None \<Rightarrow>
                                  (None,
                                   h3 @ [Call_CreateClusterRoleBinding name (secret_value secret ''user_ocid'')]))))))"

subsection \<open>Create, update, delete\<close>

text \<open>
  \<^verbatim>\<open>CreateOKEClusterFromRequest\<close> (lines 42-76). \<open>newOKECluster\<close> is the value that lines
  45-55 build; the fields the literal leaves out have their zero values. The request is a
  pointer, so it comes back as the function leaves it.
\<close>

definition zeroCluster :: Cluster where
  "zeroCluster = \<lparr>cl_Version = [], cl_VCNID = [], cl_OCID = [], cl_Delete = False, cl_NodePools = []\<rparr>"

definition newOKECluster :: "env \<Rightarrow> CreateClusterRequest \<Rightarrow> uint \<Rightarrow> uint \<Rightarrow> OKECluster" where
  "newOKECluster env request orgId userId =
     \<lparr>modelCluster =
        \<lparr>cm_ID = 0, cm_UID = [], cm_CreatedAt = 0, cm_CreatedBy = userId,
         cm_Name = ccr_Name request, cm_Location = ccr_Location request,
         cm_Cloud = ccr_Cloud request, cm_Distribution = pkgCluster_OKE env,
         cm_OrganizationId = orgId, cm_SecretId = ccr_SecretId request,
         cm_ConfigSecretId = [], cm_SshSecretId = [], cm_Status = [],
         cm_StatusMessage = [], cm_OKE = zeroCluster\<rparr>,
      APIEndpoint = []\<rparr>"

definition CreateOKEClusterFromRequest ::
    "env \<Rightarrow> CreateClusterRequest \<Rightarrow> uint \<Rightarrow> uint \<Rightarrow> hist
       \<Rightarrow> ((OKECluster \<times> error option) \<times> CreateClusterRequest \<times> hist) exec" where
  "CreateOKEClusterFromRequest env request orgId userId h =
     (let oke = newOKECluster env request orgId userId
      in case CreatePreconfiguredVCN env oke (ccr_Name request) h of
           ((VCNID, Some err), h1) \<Rightarrow> Returns ((oke, Some err), request, h1)
         | ((VCNID, None), h1) \<Rightarrow>
             (case PopulateNetworkValues env oke (ccr_CreateClusterOKE request) VCNID h1 of
                Panics \<Rightarrow> Panics
              | Returns ((properties, Some err), h2) \<Rightarrow>
                  Returns ((oke, Some err), request\<lparr>ccr_CreateClusterOKE := properties\<rparr>, h2)
              | Returns ((properties, None), h2) \<Rightarrow>
                  (let request' = request\<lparr>ccr_CreateClusterOKE := properties\<rparr>
                   in case CreateModelFromCreateRequest env request' userId of
                        Inl err \<Rightarrow> Returns ((oke, Some err), request', h2)
                      | Inr Model \<Rightarrow>
                          Returns ((oke\<lparr>modelCluster := (modelCluster oke)\<lparr>cm_OKE := Model\<rparr>\<rparr>, None),
                                   request', h2))))"

text \<open>\<^verbatim>\<open>CreateCluster\<close> (lines 79-99).\<close>

definition CreateCluster :: "env \<Rightarrow> OKECluster \<Rightarrow> hist \<Rightarrow> error option \<times> OKECluster \<times> hist" where
  "CreateCluster env oke h =
     (case GetClusterManager env oke h of
        (Some err, h1) \<Rightarrow> (Some err, oke, h1)
      | (None, h1) \<Rightarrow>
          (case ManageOKECluster env h1 (cm_OKE (modelCluster oke)) of
             (m, res) \<Rightarrow>
               (let oke1 = oke\<lparr>modelCluster := (modelCluster oke)\<lparr>cm_OKE := m\<rparr>\<rparr>;
                    h2 = h1 @ [Call_ManageOKECluster (cm_OKE (modelCluster oke))]
                in case res of
                     Some err \<Rightarrow> (Some (Wrap err ''error creating cluster''), oke1, h2)
                   | None \<Rightarrow>
                       (case setClusterAdminRights env oke1 ''cluster-creator-admin-right'' h2 of
                          (Some err, h3) \<Rightarrow>
                            (Some (WithMessage err ''error get/create clusterrolebinding''), oke1, h3)
                        | (None, h3) \<Rightarrow> (None, oke1, h3)))))"



text \<open>\<^verbatim>\<open>DeleteCluster\<close> (lines 140-161).\<close>

definition DeleteCluster :: "env \<Rightarrow> OKECluster \<Rightarrow> hist \<Rightarrow> error option \<times> OKECluster \<times> hist" where
  "DeleteCluster env oke h =
     (let oke1 = oke\<lparr>modelCluster :=
                      (modelCluster oke)\<lparr>cm_OKE := (cm_OKE (modelCluster oke))\<lparr>cl_Delete := True\<rparr>\<rparr>\<rparr>
      in case GetClusterManager env oke1 h of
           (Some err, h1) \<Rightarrow> (Some err, oke1, h1)
         | (None, h1) \<Rightarrow>
             (case ManageOKECluster env h1 (cm_OKE (modelCluster oke1)) of
                (m, res) \<Rightarrow>
                  (let oke2 = oke1\<lparr>modelCluster := (modelCluster oke1)\<lparr>cm_OKE := m\<rparr>\<rparr>;
                       h2 = h1 @ [Call_ManageOKECluster (cm_OKE (modelCluster oke1))]
                   in case res of
                        Some err \<Rightarrow> (Some err, oke2, h2)
                      | None \<Rightarrow>
                          (case DeletePreconfiguredVCN env oke2 (cl_VCNID (cm_OKE (modelCluster oke2))) h2 of
                             (Some err, h3) \<Rightarrow> (Some err, oke2, h3)
                           | (None, h3) \<Rightarrow> (None, oke2, h3)))))"

subsection \<open>Status and details\<close>

text \<open>The entry that lines 206-215 of \<^verbatim>\<open>GetStatus\<close> build for a pool.\<close>

definition nodePoolStatus :: "NodePool \<Rightarrow> NodePoolStatus" where
  "nodePoolStatus np =
     (let count = getNodeCount np
      in \<lparr>nps_Autoscaling = False, nps_Count = count, nps_InstanceType = np_Shape np,
          nps_MinCount = count, nps_MaxCount = count, nps_Image = np_Image np,
          nps_Version = np_Version np\<rparr>)"

text \<open>
  The loop of \<^verbatim>\<open>GetStatus\<close> (lines 204-217): the map gets one entry per pool name, a later
  pool of the same name replacing an earlier one; nil pools are skipped.
\<close>

fun statusNodePools ::
    "(string \<rightharpoonup> NodePoolStatus) \<Rightarrow> NodePool option list \<Rightarrow> (string \<rightharpoonup> NodePoolStatus)" where
  "statusNodePools nodePools [] = nodePools"
| "statusNodePools nodePools (None # nps) = statusNodePools nodePools nps"
| "statusNodePools nodePools (Some np # nps) =
     statusNodePools (nodePools(np_Name np \<mapsto> nodePoolStatus np)) nps"

text \<open>\<^verbatim>\<open>GetStatus\<close> (lines 201-231); its error is always nil.\<close>

definition GetStatus :: "env \<Rightarrow> OKECluster \<Rightarrow> GetClusterStatusResponse \<times> error option" where
  "GetStatus env oke =
     (\<lparr>gsr_Status = cm_Status (modelCluster oke),
       gsr_StatusMessage = cm_StatusMessage (modelCluster oke),
       gsr_Name = cm_Name (modelCluster oke),
       gsr_Location = cm_Location (modelCluster oke),
       gsr_Cloud = pkgCluster_Oracle env,
       gsr_Distribution = cm_Distribution (modelCluster oke),
       gsr_Version = cl_Version (cm_OKE (modelCluster oke)),
       gsr_ResourceID = cm_ID (modelCluster oke),
       gsr_CreatorBaseFields =
         NewCreatorBaseFields env (cm_CreatedAt (modelCluster oke)) (cm_CreatedBy (modelCluster oke)),
       gsr_NodePools = statusNodePools Map.empty (cl_NodePools (cm_OKE (modelCluster oke)))\<rparr>,
      None)"

text \<open>The entry that lines 366-373 of \<^verbatim>\<open>GetClusterDetails\<close> build for a pool.\<close>

definition nodeDetails :: "env \<Rightarrow> NodePool \<Rightarrow> NodeDetails" where
  "nodeDetails env np =
     (let count = getNodeCount np
      in \<lparr>nd_CreatorBaseFields = NewCreatorBaseFields env (np_CreatedAt np) (np_CreatedBy np),
          nd_Version = np_Version np, nd_Count = count, nd_MinCount = count,
          nd_MaxCount = count\<rparr>)"

text \<open>The loop of \<^verbatim>\<open>GetClusterDetails\<close> (lines 364-375).\<close>

fun detailsNodePools ::
    "env \<Rightarrow> (string \<rightharpoonup> NodeDetails) \<Rightarrow> NodePool option list \<Rightarrow> (string \<rightharpoonup> NodeDetails)" where
  "detailsNodePools env nodePools [] = nodePools"
| "detailsNodePools env nodePools (None # nps) = detailsNodePools env nodePools nps"
| "detailsNodePools env nodePools (Some np # nps) =
     detailsNodePools env (nodePools(np_Name np \<mapsto> nodeDetails env np)) nps"

text \<open>
  \<^verbatim>\<open>GetClusterDetails\<close> (lines 337-387). The response is nil (\<open>None\<close>) on every error path.
\<close>

definition GetClusterDetails ::
    "env \<Rightarrow> OKECluster \<Rightarrow> hist \<Rightarrow> (DetailsResponse option \<times> error option) \<times> hist" where
  "GetClusterDetails env oke h =
     (case GetOCIWithRegion env oke (cm_Location (modelCluster oke)) h of
        (Some err, h1) \<Rightarrow> ((None, Some err), h1)
      | (None, h1) \<Rightarrow>
          (case NewContainerEngineClient env h1 of
             Some err \<Rightarrow> ((None, Some err), h1 @ [Call_NewContainerEngineClient])
           | None \<Rightarrow>
               (let h2 = h1 @ [Call_NewContainerEngineClient];
                    h3 = h2 @ [Call_GetCluster (cl_OCID (cm_OKE (modelCluster oke)))]
                in case GetCluster env h2 (cl_OCID (cm_OKE (modelCluster oke))) of
                     Inl err \<Rightarrow> ((None, Some err), h3)
                   | Inr cluster \<Rightarrow>
                       if lc_LifecycleState cluster \<noteq> ''ACTIVE''
                       then ((None, Some ErrorClusterNotReady), h3)
                       else
                         (case GetStatus env oke of
                            (status, Some err) \<Rightarrow> ((None, Some err), h3)
                          | (status, None) \<Rightarrow>
                              ((Some
                                 \<lparr>dr_CreatorBaseFields =
                                    NewCreatorBaseFields env (cm_CreatedAt (modelCluster oke))
                                      (cm_CreatedBy (modelCluster oke)),
                                  dr_Name = gsr_Name status,
                                  dr_Id = gsr_ResourceID status,
                                  dr_Location = gsr_Location status,
                                  dr_MasterVersion = cl_Version (cm_OKE (modelCluster oke)),
                                  dr_NodePools =
                                    detailsNodePools env Map.empty (cl_NodePools (cm_OKE (modelCluster oke))),
                                  dr_Status = cm_Status (modelCluster oke)\<rparr>,
                                None), h3)))))"

subsection \<open>Reading results and histories\<close>

text \<open>The error that \<^verbatim>\<open>CreateOKEClusterFromRequest\<close> hands to its caller, nil after a panic.\<close>

definition returned_error :: "(('a \<times> error option) \<times> 'b) exec \<Rightarrow> error option" where
  "returned_error x = (case x of Returns ((v, err), rest) \<Rightarrow> err | Panics \<Rightarrow> None)"

text \<open>The calls that \<^verbatim>\<open>GetOCIWithRegion\<close> makes to obtain a client.\<close>

fun is_client_call :: "event \<Rightarrow> bool" where
  "is_client_call Call_getSecret = True"
| "is_client_call Call_NewOCI = True"
| "is_client_call (Call_ChangeRegion region) = True"
| "is_client_call e = False"


subsection \<open>Concrete networks, aggregates and environments\<close>

definition nv4 :: NetworkValues where
  "nv4 = \<lparr>LBSubnetIDs = [''lb1'', ''lb2''], WNSubnetIDs = [''s1'', ''s2'', ''s3'', ''s4'']\<rparr>"

definition nv3 :: NetworkValues where
  "nv3 = \<lparr>LBSubnetIDs = [''lb1'', ''lb2''], WNSubnetIDs = [''s1'', ''s2'', ''s3'']\<rparr>"

definition nv2 :: NetworkValues where
  "nv2 = \<lparr>LBSubnetIDs = [''lb1'', ''lb2''], WNSubnetIDs = [''s1'', ''s2'']\<rparr>"

definition nv_one_lb :: NetworkValues where
  "nv_one_lb = \<lparr>LBSubnetIDs = [''lb1''], WNSubnetIDs = [''s1'', ''s2'', ''s3'']\<rparr>"

definition pool_a :: NodePool where
  "pool_a = \<lparr>np_Name = ''a'', np_Shape = ''VM.Standard1.1'', np_Image = ''Oracle-Linux-7.4'',
             np_Version = ''v1.10.3'', np_QuantityPerSubnet = 3, np_Subnets = [''s1'', ''s2'', ''s3''],
             np_Delete = False, np_CreatedAt = 0, np_CreatedBy = 1\<rparr>"

definition pool_b :: NodePool where
  "pool_b = \<lparr>np_Name = ''b'', np_Shape = ''VM.Standard1.1'', np_Image = ''Oracle-Linux-7.4'',
             np_Version = ''v1.10.3'', np_QuantityPerSubnet = 2, np_Subnets = [''s1'', ''s2''],
             np_Delete = True, np_CreatedAt = 0, np_CreatedBy = 1\<rparr>"

definition cluster0 :: Cluster where
  "cluster0 = \<lparr>cl_Version = ''v1.10.3'', cl_VCNID = ''vcn1'', cl_OCID = ''ocid1.cluster'',
               cl_Delete = False, cl_NodePools = [Some pool_a, Some pool_b]\<rparr>"

definition oke0 :: OKECluster where
  "oke0 = \<lparr>modelCluster =
             \<lparr>cm_ID = 7, cm_UID = ''uid'', cm_CreatedAt = 0, cm_CreatedBy = 1, cm_Name = ''demo'',
              cm_Location = ''eu-frankfurt-1'', cm_Cloud = ''oracle'', cm_Distribution = ''oke'',
              cm_OrganizationId = 1, cm_SecretId = ''secret'', cm_ConfigSecretId = [],
              cm_SshSecretId = [], cm_Status = ''RUNNING'', cm_StatusMessage = [],
              cm_OKE = cluster0\<rparr>,
            APIEndpoint = []\<rparr>"






text \<open>A stored cluster with two pools of one name around a nil pointer.\<close>

definition pool_a2 :: NodePool where
  "pool_a2 = \<lparr>np_Name = ''a'', np_Shape = ''VM.Standard1.2'', np_Image = ''Oracle-Linux-7.4'',
              np_Version = ''v1.10.3'', np_QuantityPerSubnet = 5, np_Subnets = [''s1''],
              np_Delete = False, np_CreatedAt = 0, np_CreatedBy = 1\<rparr>"

definition oke_same_name :: OKECluster where
  "oke_same_name =
     oke0\<lparr>modelCluster :=
            (modelCluster oke0)\<lparr>cm_OKE := cluster0\<lparr>cl_NodePools := [Some pool_a, None, Some pool_a2]\<rparr>\<rparr>\<rparr>"

definition req_cluster0 :: ReqCluster where
  "req_cluster0 =
     \<lparr>rc_NodePools = [(''a'', Some \<lparr>rnp_Count = 9, rnp_quantityPerSubnet = 0, rnp_subnetIds = []\<rparr>)],
      rc_vcnID = [], rc_lbSubnetID1 = [], rc_lbSubnetID2 = []\<rparr>"


definition client_calls :: hist where
  "client_calls = [Call_getSecret, Call_NewOCI, Call_ChangeRegion ''eu-frankfurt-1'']"

definition create_req0 :: CreateClusterRequest where
  "create_req0 = \<lparr>ccr_Name = ''demo'', ccr_Location = ''eu-frankfurt-1'', ccr_Cloud = ''oracle'',
                  ccr_SecretId = ''secret'', ccr_CreateClusterOKE = req_cluster0\<rparr>"


text \<open>
  An environment in which every collaborator succeeds: the network has two load-balancer
  subnets and four worker subnets, the live cluster is active, the engine leaves the
  cluster and the store as they are, and the model of an update is the stored cluster,
  sharing its pool slice.
\<close>

definition env_ok :: env where
  "env_ok =
     \<lparr>getSecret = (\<lambda>h m. Inr [(''user_ocid'', ''ocid1.user'')]),
      NewOCI = (\<lambda>h s. None),
      ChangeRegion = (\<lambda>h region. None),
      NewContainerEngineClient = (\<lambda>h. None),
      GetCluster = (\<lambda>h ocid. Inr \<lparr>lc_LifecycleState = ''ACTIVE''\<rparr>),
      vcn_Create = (\<lambda>h name. Inr \<lparr>vcn_Id = Some ''vcn1''\<rparr>),
      vcn_Delete = (\<lambda>h VCNID. None),
      vcn_GetNetworkValues = (\<lambda>h VCNID. Inr nv4),
      ManageOKECluster = (\<lambda>h c. (c, None)),
      getConfig = (\<lambda>h m. Inr ''kubeconfig''),
      GetK8sConnection = (\<lambda>h kubeConfig. None),
      CreateClusterRoleBinding = (\<lambda>h name subject. None),
      CreateModelFromCreateRequest = (\<lambda>request userId. Inr cluster0),
      CreateModelFromUpdateRequest = (\<lambda>st current r userId. (Inr current, st)),
      ManageOKECluster_shared = (\<lambda>h st c. ((c, st), None)),
      NewCreatorBaseFields =
        (\<lambda>createdAt createdBy. \<lparr>cbf_CreatedAt = [], cbf_CreatorName = [], cbf_CreatorId = createdBy\<rparr>),
      pkgCluster_OKE = ''oke'',
      pkgCluster_Oracle = ''oracle'',
      secretOracle_UserOCID = ''user_ocid''\<rparr>"

text \<open>The same environment with one collaborator failing, or answering differently.\<close>

definition env_apply_fails :: env where
  "env_apply_fails =
     env_ok\<lparr>ManageOKECluster := (\<lambda>h c. (c, Some (Upstream ''apply failed''))),
            ManageOKECluster_shared := (\<lambda>h st c. ((c, st), Some (Upstream ''apply failed'')))\<rparr>"


definition env_vcn_fails :: env where
  "env_vcn_fails = env_ok\<lparr>vcn_Create := (\<lambda>h name. Inl (Upstream ''vcn create failed''))\<rparr>"

definition env_no_vcn_id :: env where
  "env_no_vcn_id = env_ok\<lparr>vcn_Create := (\<lambda>h name. Inr \<lparr>vcn_Id = None\<rparr>)\<rparr>"

definition env_one_lb :: env where
  "env_one_lb = env_ok\<lparr>vcn_GetNetworkValues := (\<lambda>h VCNID. Inr nv_one_lb)\<rparr>"

definition env_creating :: env where
  "env_creating = env_ok\<lparr>GetCluster := (\<lambda>h ocid. Inr \<lparr>lc_LifecycleState = ''CREATING''\<rparr>)\<rparr>"

definition env_binding_fails :: env where
  "env_binding_fails =
     env_ok\<lparr>CreateClusterRoleBinding := (\<lambda>h name subject. Some (Upstream ''binding refused''))\<rparr>"

section \<open>Properties of the distribution\<close>

lemma uint_mod_zero_iff: "(c::uint) mod k = 0 \<longleftrightarrow> unat c mod unat k = 0"
  by (simp add: unat_eq_0 [symmetric] unat_mod)

lemma uint_mod3_iff: "(c::uint) mod 3 = 0 \<longleftrightarrow> 3 dvd unat c"
  by (simp add: uint_mod_zero_iff dvd_eq_mod_eq_0)

lemma uint_mod2_iff: "(c::uint) mod 2 = 0 \<longleftrightarrow> 2 dvd unat c"
  by (simp add: uint_mod_zero_iff dvd_eq_mod_eq_0)

lemma unat_uint_div3: "unat ((c::uint) div 3) = unat c div 3"
  by (simp add: unat_div)

lemma unat_uint_div2: "unat ((c::uint) div 2) = unat c div 2"
  by (simp add: unat_div)

text \<open>
  Claim C1. For every count and every list of worker subnets, \<open>GetPoolQuantityValues\<close>
  returns without a panic, and what it returns is: quantity 0 and no subnet when the count
  is 0 or fewer than 3 worker subnets are available; otherwise a third of the count on the
  first 3 subnets when 3 divides the count; otherwise half of the count on the first 2
  subnets when 2 divides it; otherwise the whole count on the first subnet.
\<close>

theorem GetPoolQuantityValues_cases:
  "(count = 0 \<or> length (WNSubnetIDs nv) < 3 \<longrightarrow> GetPoolQuantityValues count nv = Some (0, []))
   \<and> (count \<noteq> 0 \<and> 3 \<le> length (WNSubnetIDs nv) \<and> 3 dvd unat count \<longrightarrow>
        GetPoolQuantityValues count nv = Some (count div 3, take 3 (WNSubnetIDs nv))
        \<and> unat (count div 3) = unat count div 3)
   \<and> (count \<noteq> 0 \<and> 3 \<le> length (WNSubnetIDs nv) \<and> \<not> 3 dvd unat count \<and> 2 dvd unat count \<longrightarrow>
        GetPoolQuantityValues count nv = Some (count div 2, take 2 (WNSubnetIDs nv))
        \<and> unat (count div 2) = unat count div 2)
   \<and> (count \<noteq> 0 \<and> 3 \<le> length (WNSubnetIDs nv) \<and> \<not> 3 dvd unat count \<and> \<not> 2 dvd unat count \<longrightarrow>
        GetPoolQuantityValues count nv = Some (count, take 1 (WNSubnetIDs nv)))"
  by (simp add: GetPoolQuantityValues_def slice_to_def uint_mod3_iff uint_mod2_iff
        unat_uint_div3 unat_uint_div2)

theorem GetPoolQuantityValues_cases_witness:
  "GetPoolQuantityValues 0 nv4 = Some (0, [])
   \<and> GetPoolQuantityValues 7 nv2 = Some (0, [])
   \<and> GetPoolQuantityValues 6 nv4 = Some (2, [''s1'', ''s2'', ''s3''])
   \<and> GetPoolQuantityValues 4 nv3 = Some (2, [''s1'', ''s2''])
   \<and> GetPoolQuantityValues 5 nv3 = Some (5, [''s1''])"
  using GetPoolQuantityValues_cases [of 0 nv4] GetPoolQuantityValues_cases [of 7 nv2]
    GetPoolQuantityValues_cases [of 6 nv4] GetPoolQuantityValues_cases [of 4 nv3]
    GetPoolQuantityValues_cases [of 5 nv3]
  by (simp add: nv4_def nv3_def nv2_def)

text \<open>
  Claim C2, as stated: for every count and every worker-subnet list, the count equals the
  returned quantity per subnet times the number of assigned subnets. It fails where the
  guard of the function answers a positive count with no subnet at all: 5 instances on a
  network of 2 worker subnets give quantity 0 on 0 subnets.
\<close>

theorem distribution_product_counterexample:
  "GetPoolQuantityValues 5 nv2 = Some (0, [])
   \<and> unat (0::uint) * length ([]::string list) \<noteq> unat (5::uint)"
  by (simp add: GetPoolQuantityValues_def nv2_def)

lemma distribution_word_product:
  fixes q count :: uint
  assumes "unat q * n = unat count"
  shows "q * word_of_nat n = count"
proof -
  have "q * word_of_nat n = word_of_nat (unat q) * word_of_nat n" by simp
  also have "\<dots> = word_of_nat (unat q * n)" by (simp only: of_nat_mult)
  also have "\<dots> = count" using assms by simp
  finally show ?thesis .
qed

text \<open>
  Claim C2, amended. The count equals the returned quantity per subnet times the number of
  assigned subnets exactly when the count is 0 or at least 3 worker subnets are available;
  in that case \<open>getNodeCount\<close> of a pool that stores the two values is the count again.
\<close>

theorem distribution_product:
  assumes "GetPoolQuantityValues count nv = Some (q, ids)"
  shows "(unat q * length ids = unat count \<longleftrightarrow> count = 0 \<or> 3 \<le> length (WNSubnetIDs nv))
    \<and> (count = 0 \<or> 3 \<le> length (WNSubnetIDs nv) \<longrightarrow>
         getNodeCount (np\<lparr>np_QuantityPerSubnet := q, np_Subnets := ids\<rparr>) = count)"
proof -
  have nat_eq: "unat q * length ids = unat count \<longleftrightarrow> count = 0 \<or> 3 \<le> length (WNSubnetIDs nv)"
    using assms
    by (auto simp: GetPoolQuantityValues_def slice_to_def uint_mod3_iff uint_mod2_iff
        unat_uint_div3 unat_uint_div2 unat_eq_0 split: if_splits)
  moreover have "getNodeCount (np\<lparr>np_QuantityPerSubnet := q, np_Subnets := ids\<rparr>) = count"
    if "count = 0 \<or> 3 \<le> length (WNSubnetIDs nv)"
    using that nat_eq by (simp add: getNodeCount_def distribution_word_product)
  ultimately show ?thesis by blast
qed

theorem distribution_product_witness:
  "GetPoolQuantityValues 9 nv4 = Some (3, [''s1'', ''s2'', ''s3''])
   \<and> unat (3::uint) * length [''s1'', ''s2'', ''s3''] = unat (9::uint)
   \<and> getNodeCount (pool_b\<lparr>np_QuantityPerSubnet := 3, np_Subnets := [''s1'', ''s2'', ''s3'']\<rparr>) = 9"
proof -
  have run: "GetPoolQuantityValues 9 nv4 = Some (3, [''s1'', ''s2'', ''s3''])"
    by (simp add: GetPoolQuantityValues_def slice_to_def nv4_def)
  show ?thesis
    using run distribution_product [OF run, of pool_b] by (simp add: nv4_def)
qed

section \<open>Properties of the network provisioner\<close>

lemma GetPoolQuantityValues_total: "\<exists>q ids. GetPoolQuantityValues count nv = Some (q, ids)"
  by (simp add: GetPoolQuantityValues_def slice_to_def)

lemma populatePools_Returns:
  "populatePools nv nps = Returns out \<Longrightarrow>
     length out = length nps
     \<and> (\<forall>i < length nps. \<exists>k np q ids.
           nps ! i = (k, Some np) \<and> GetPoolQuantityValues (rnp_Count np) nv = Some (q, ids)
           \<and> out ! i = (k, Some (np\<lparr>rnp_quantityPerSubnet := q, rnp_subnetIds := ids\<rparr>)))"
proof (induction nv nps arbitrary: out rule: populatePools.induct)
  case (1 nv)
  then show ?case by simp
next
  case (2 nv k nps)
  then show ?case by simp
next
  case (3 nv k np nps)
  from "3.prems" obtain q ids rest where
    g: "GetPoolQuantityValues (rnp_Count np) nv = Some (q, ids)"
    and r: "populatePools nv nps = Returns rest"
    and o: "out = (k, Some (np\<lparr>rnp_quantityPerSubnet := q, rnp_subnetIds := ids\<rparr>)) # rest"
    by (auto split: option.splits exec.splits)
  from "3.IH" [OF g refl r] have ih: "length rest = length nps"
    "\<forall>i < length nps. \<exists>k np q ids.
           nps ! i = (k, Some np) \<and> GetPoolQuantityValues (rnp_Count np) nv = Some (q, ids)
           \<and> rest ! i = (k, Some (np\<lparr>rnp_quantityPerSubnet := q, rnp_subnetIds := ids\<rparr>))"
    by simp_all
  show ?case
  proof (intro conjI allI impI)
    show "length out = length ((k, Some np) # nps)" using o ih(1) by simp
  next
    fix i assume "i < length ((k, Some np) # nps)"
    then show "\<exists>k' np' q ids.
           ((k, Some np) # nps) ! i = (k', Some np') \<and> GetPoolQuantityValues (rnp_Count np') nv = Some (q, ids)
           \<and> out ! i = (k', Some (np'\<lparr>rnp_quantityPerSubnet := q, rnp_subnetIds := ids\<rparr>))"
      using g o ih(2) by (cases i) auto
  qed
qed

lemma populatePools_Panics_iff:
  "populatePools nv nps = Panics \<longleftrightarrow> (\<exists>k. (k, None) \<in> set nps)"
proof (induction nv nps rule: populatePools.induct)
  case (3 nv k np nps)
  obtain q ids where g: "GetPoolQuantityValues (rnp_Count np) nv = Some (q, ids)"
    using GetPoolQuantityValues_total by blast
  show ?case using "3.IH" [OF g refl] g by (auto split: exec.splits)
qed auto

lemma PopulateNetworkValues_after_query:
  assumes "GetOCIWithRegion env oke (cm_Location (modelCluster oke)) h = (None, h1)"
    and "vcn_GetNetworkValues env h1 VCNID = Inr nv"
  shows "PopulateNetworkValues env oke r VCNID h =
     (if length (LBSubnetIDs nv) \<noteq> 2
      then Returns ((r\<lparr>rc_vcnID := VCNID\<rparr>, Some ConfigError), h1 @ [Call_vcn_GetNetworkValues VCNID])
      else (case populatePools nv (rc_NodePools r) of
              Panics \<Rightarrow> Panics
            | Returns nps \<Rightarrow>
                Returns ((r\<lparr>rc_vcnID := VCNID, rc_lbSubnetID1 := LBSubnetIDs nv ! 0,
                            rc_lbSubnetID2 := LBSubnetIDs nv ! 1, rc_NodePools := nps\<rparr>, None),
                         h1 @ [Call_vcn_GetNetworkValues VCNID])))"
  using assms by (simp add: PopulateNetworkValues_def ConfigError_def Let_def split: exec.splits)

text \<open>Obtaining a client in the concrete environments.\<close>

lemma GetOCIWithRegion_env_ok: "GetOCIWithRegion env_ok oke region h = (None, h @ [Call_getSecret, Call_NewOCI, Call_ChangeRegion region])"
  by (simp add: GetOCIWithRegion_def GetOCI_def env_ok_def)

lemma client_env_one_lb:
  "GetOCIWithRegion env_one_lb oke region h = (None, h @ [Call_getSecret, Call_NewOCI, Call_ChangeRegion region])"
  by (simp add: GetOCIWithRegion_def GetOCI_def env_one_lb_def env_ok_def)

lemma client_env_no_vcn_id:
  "GetOCIWithRegion env_no_vcn_id oke region h = (None, h @ [Call_getSecret, Call_NewOCI, Call_ChangeRegion region])"
  by (simp add: GetOCIWithRegion_def GetOCI_def env_no_vcn_id_def env_ok_def)

lemma client_env_creating:
  "GetOCIWithRegion env_creating oke region h = (None, h @ [Call_getSecret, Call_NewOCI, Call_ChangeRegion region])"
  by (simp add: GetOCIWithRegion_def GetOCI_def env_creating_def env_ok_def)

lemma client_env_apply_fails:
  "GetOCIWithRegion env_apply_fails oke region h = (None, h @ [Call_getSecret, Call_NewOCI, Call_ChangeRegion region])"
  by (simp add: GetOCIWithRegion_def GetOCI_def env_apply_fails_def env_ok_def)

lemma client_env_vcn_fails:
  "GetOCIWithRegion env_vcn_fails oke region h = (None, h @ [Call_getSecret, Call_NewOCI, Call_ChangeRegion region])"
  by (simp add: GetOCIWithRegion_def GetOCI_def env_vcn_fails_def env_ok_def)

lemma client_env_binding_fails:
  "GetOCIWithRegion env_binding_fails oke region h = (None, h @ [Call_getSecret, Call_NewOCI, Call_ChangeRegion region])"
  by (simp add: GetOCIWithRegion_def GetOCI_def env_binding_fails_def env_ok_def)

text \<open>
  Claim C4. Once the network query has answered with an inventory, \<open>PopulateNetworkValues\<close>
  fails with the configuration error whenever the inventory does not hold exactly 2
  load-balancer subnets, whatever the node pools of the request are. When it succeeds, the
  inventory holds exactly 2 load-balancer subnets, both are stored in the request, and every
  pool of the request carries the quantity and the subnets that \<open>GetPoolQuantityValues\<close>
  computes from its count. It succeeds exactly when there are 2 load-balancer subnets and no
  pool pointer is nil.
\<close>

theorem PopulateNetworkValues_spec:
  assumes "GetOCIWithRegion env oke (cm_Location (modelCluster oke)) h = (None, h1)"
    and "vcn_GetNetworkValues env h1 VCNID = Inr nv"
  shows "(length (LBSubnetIDs nv) \<noteq> 2 \<longrightarrow>
            (\<exists>r'. PopulateNetworkValues env oke r VCNID h =
                     Returns ((r', Some ConfigError), h1 @ [Call_vcn_GetNetworkValues VCNID])))
     \<and> (\<forall>r' h'. PopulateNetworkValues env oke r VCNID h = Returns ((r', None), h') \<longrightarrow>
           length (LBSubnetIDs nv) = 2
           \<and> rc_lbSubnetID1 r' = LBSubnetIDs nv ! 0
           \<and> rc_lbSubnetID2 r' = LBSubnetIDs nv ! 1
           \<and> length (rc_NodePools r') = length (rc_NodePools r)
           \<and> (\<forall>i < length (rc_NodePools r). \<exists>k np q ids.
                 rc_NodePools r ! i = (k, Some np)
                 \<and> GetPoolQuantityValues (rnp_Count np) nv = Some (q, ids)
                 \<and> rc_NodePools r' ! i = (k, Some (np\<lparr>rnp_quantityPerSubnet := q, rnp_subnetIds := ids\<rparr>))))
     \<and> ((\<exists>r' h'. PopulateNetworkValues env oke r VCNID h = Returns ((r', None), h'))
          \<longleftrightarrow> length (LBSubnetIDs nv) = 2 \<and> (\<forall>k. (k, None) \<notin> set (rc_NodePools r)))"
proof (intro conjI)
  show "length (LBSubnetIDs nv) \<noteq> 2 \<longrightarrow>
            (\<exists>r'. PopulateNetworkValues env oke r VCNID h =
                     Returns ((r', Some ConfigError), h1 @ [Call_vcn_GetNetworkValues VCNID]))"
    by (simp add: PopulateNetworkValues_after_query [OF assms])
next
  show "\<forall>r' h'. PopulateNetworkValues env oke r VCNID h = Returns ((r', None), h') \<longrightarrow>
           length (LBSubnetIDs nv) = 2
           \<and> rc_lbSubnetID1 r' = LBSubnetIDs nv ! 0
           \<and> rc_lbSubnetID2 r' = LBSubnetIDs nv ! 1
           \<and> length (rc_NodePools r') = length (rc_NodePools r)
           \<and> (\<forall>i < length (rc_NodePools r). \<exists>k np q ids.
                 rc_NodePools r ! i = (k, Some np)
                 \<and> GetPoolQuantityValues (rnp_Count np) nv = Some (q, ids)
                 \<and> rc_NodePools r' ! i = (k, Some (np\<lparr>rnp_quantityPerSubnet := q, rnp_subnetIds := ids\<rparr>)))"
  proof (intro allI impI)
    fix r' h'
    assume ret: "PopulateNetworkValues env oke r VCNID h = Returns ((r', None), h')"
    have two: "length (LBSubnetIDs nv) = 2"
      using ret by (simp add: PopulateNetworkValues_after_query [OF assms] split: if_splits)
    from ret two obtain nps where
      pp: "populatePools nv (rc_NodePools r) = Returns nps"
      and r': "r' = r\<lparr>rc_vcnID := VCNID, rc_lbSubnetID1 := LBSubnetIDs nv ! 0,
                            rc_lbSubnetID2 := LBSubnetIDs nv ! 1, rc_NodePools := nps\<rparr>"
      by (auto simp: PopulateNetworkValues_after_query [OF assms] split: exec.splits)
    from populatePools_Returns [OF pp] two r'
    show "length (LBSubnetIDs nv) = 2
           \<and> rc_lbSubnetID1 r' = LBSubnetIDs nv ! 0
           \<and> rc_lbSubnetID2 r' = LBSubnetIDs nv ! 1
           \<and> length (rc_NodePools r') = length (rc_NodePools r)
           \<and> (\<forall>i < length (rc_NodePools r). \<exists>k np q ids.
                 rc_NodePools r ! i = (k, Some np)
                 \<and> GetPoolQuantityValues (rnp_Count np) nv = Some (q, ids)
                 \<and> rc_NodePools r' ! i = (k, Some (np\<lparr>rnp_quantityPerSubnet := q, rnp_subnetIds := ids\<rparr>)))"
      by simp
  qed
next
  show "(\<exists>r' h'. PopulateNetworkValues env oke r VCNID h = Returns ((r', None), h'))
          \<longleftrightarrow> length (LBSubnetIDs nv) = 2 \<and> (\<forall>k. (k, None) \<notin> set (rc_NodePools r))"
    using populatePools_Panics_iff [of nv "rc_NodePools r"]
    by (auto simp: PopulateNetworkValues_after_query [OF assms] split: exec.splits)
qed

theorem PopulateNetworkValues_spec_witness:
  "returned_error (PopulateNetworkValues env_one_lb oke0 req_cluster0 ''vcn1'' []) = Some ConfigError
   \<and> PopulateNetworkValues env_ok oke0 req_cluster0 ''vcn1'' [] =
       Returns ((\<lparr>rc_NodePools =
                    [(''a'', Some \<lparr>rnp_Count = 9, rnp_quantityPerSubnet = 3,
                                   rnp_subnetIds = [''s1'', ''s2'', ''s3'']\<rparr>)],
                  rc_vcnID = ''vcn1'', rc_lbSubnetID1 = ''lb1'', rc_lbSubnetID2 = ''lb2''\<rparr>, None),
                [Call_getSecret, Call_NewOCI, Call_ChangeRegion ''eu-frankfurt-1'',
                 Call_vcn_GetNetworkValues ''vcn1''])"
proof -
  have q1: "vcn_GetNetworkValues env_one_lb
              ([] @ [Call_getSecret, Call_NewOCI, Call_ChangeRegion (cm_Location (modelCluster oke0))]) ''vcn1''
            = Inr nv_one_lb"
    by (simp add: env_one_lb_def env_ok_def)
  have q2: "vcn_GetNetworkValues env_ok
              ([] @ [Call_getSecret, Call_NewOCI, Call_ChangeRegion (cm_Location (modelCluster oke0))]) ''vcn1''
            = Inr nv4"
    by (simp add: env_ok_def)
  have fails: "returned_error (PopulateNetworkValues env_one_lb oke0 req_cluster0 ''vcn1'' []) = Some ConfigError"
    using PopulateNetworkValues_spec [OF client_env_one_lb q1, of req_cluster0]
    by (auto simp: nv_one_lb_def returned_error_def)
  have "\<forall>k. (k, None) \<notin> set (rc_NodePools req_cluster0)" by (simp add: req_cluster0_def)
  then obtain r' h' where
    ret: "PopulateNetworkValues env_ok oke0 req_cluster0 ''vcn1'' [] = Returns ((r', None), h')"
    using PopulateNetworkValues_spec [OF GetOCIWithRegion_env_ok q2, of req_cluster0]
    by (auto simp: nv4_def)
  have run: "PopulateNetworkValues env_ok oke0 req_cluster0 ''vcn1'' [] =
       Returns ((\<lparr>rc_NodePools =
                    [(''a'', Some \<lparr>rnp_Count = 9, rnp_quantityPerSubnet = 3,
                                   rnp_subnetIds = [''s1'', ''s2'', ''s3'']\<rparr>)],
                  rc_vcnID = ''vcn1'', rc_lbSubnetID1 = ''lb1'', rc_lbSubnetID2 = ''lb2''\<rparr>, None),
                [Call_getSecret, Call_NewOCI, Call_ChangeRegion ''eu-frankfurt-1'',
                 Call_vcn_GetNetworkValues ''vcn1''])"
    using PopulateNetworkValues_after_query [OF GetOCIWithRegion_env_ok q2, of req_cluster0]
    by (simp add: nv4_def req_cluster0_def oke0_def GetPoolQuantityValues_def slice_to_def)
  from fails run show ?thesis by simp
qed

text \<open>
  Claim C10. When \<open>PopulateNetworkValues\<close> fails because the inventory does not hold exactly
  2 load-balancer subnets, the request it hands back is the request given with the
  virtual-network id already set to the id supplied: the assignment runs before the check.
  The request is therefore changed, unless it carried that very id before the call.
\<close>

theorem PopulateNetworkValues_sets_vcn_first:
  assumes "GetOCIWithRegion env oke (cm_Location (modelCluster oke)) h = (None, h1)"
    and "vcn_GetNetworkValues env h1 VCNID = Inr nv"
    and "length (LBSubnetIDs nv) \<noteq> 2"
  shows "PopulateNetworkValues env oke r VCNID h =
           Returns ((r\<lparr>rc_vcnID := VCNID\<rparr>, Some ConfigError), h1 @ [Call_vcn_GetNetworkValues VCNID])
     \<and> rc_vcnID (r\<lparr>rc_vcnID := VCNID\<rparr>) = VCNID
     \<and> (rc_vcnID r \<noteq> VCNID \<longrightarrow> r\<lparr>rc_vcnID := VCNID\<rparr> \<noteq> r)"
proof -
  have "r\<lparr>rc_vcnID := VCNID\<rparr> \<noteq> r" if "rc_vcnID r \<noteq> VCNID"
  proof
    assume "r\<lparr>rc_vcnID := VCNID\<rparr> = r"
    then have "rc_vcnID (r\<lparr>rc_vcnID := VCNID\<rparr>) = rc_vcnID r" by simp
    with that show False by simp
  qed
  then show ?thesis
    using assms(3) by (simp add: PopulateNetworkValues_after_query [OF assms(1,2)])
qed

theorem PopulateNetworkValues_sets_vcn_first_witness:
  "PopulateNetworkValues env_one_lb oke0 req_cluster0 ''vcn1'' [] =
     Returns ((req_cluster0\<lparr>rc_vcnID := ''vcn1''\<rparr>, Some ConfigError),
              [Call_getSecret, Call_NewOCI, Call_ChangeRegion ''eu-frankfurt-1'',
               Call_vcn_GetNetworkValues ''vcn1''])
   \<and> req_cluster0\<lparr>rc_vcnID := ''vcn1''\<rparr> \<noteq> req_cluster0"
proof -
  have q1: "vcn_GetNetworkValues env_one_lb
              ([] @ [Call_getSecret, Call_NewOCI, Call_ChangeRegion (cm_Location (modelCluster oke0))]) ''vcn1''
            = Inr nv_one_lb"
    by (simp add: env_one_lb_def env_ok_def)
  have q2: "length (LBSubnetIDs nv_one_lb) \<noteq> 2" by (simp add: nv_one_lb_def)
  have q3: "rc_vcnID req_cluster0 \<noteq> ''vcn1''" by (simp add: req_cluster0_def)
  show ?thesis
    using PopulateNetworkValues_sets_vcn_first [OF client_env_one_lb q1 q2, of req_cluster0] q3
    by (simp add: oke0_def)
qed

text \<open>
  Claim C9. For every cluster name, once a client is obtained, \<open>CreatePreconfiguredVCN\<close>
  asks the network manager for a network named by the fixed prefix followed by the cluster
  name, and this request is its last call. An error of the manager is handed on. When the
  manager answers with a network, the result is the resource error if the network carries no
  id, and the id of the network with no error otherwise.
\<close>

theorem CreatePreconfiguredVCN_spec:
  assumes "GetOCIWithRegion env oke (cm_Location (modelCluster oke)) h = (None, h1)"
  shows "snd (CreatePreconfiguredVCN env oke name h) = h1 @ [Call_vcn_Create (''p-'' @ name)]
     \<and> (\<forall>vcn. vcn_Create env h1 (''p-'' @ name) = Inr vcn \<longrightarrow>
           fst (CreatePreconfiguredVCN env oke name h) =
             (case vcn_Id vcn of None \<Rightarrow> ([], Some ResourceError) | Some i \<Rightarrow> (i, None)))
     \<and> (\<forall>err. vcn_Create env h1 (''p-'' @ name) = Inl err \<longrightarrow>
           fst (CreatePreconfiguredVCN env oke name h) = ([], Some err))"
  using assms
  by (auto simp: CreatePreconfiguredVCN_def ResourceError_def split: sum.splits option.splits)

theorem CreatePreconfiguredVCN_spec_witness:
  "CreatePreconfiguredVCN env_no_vcn_id oke0 ''demo'' [] =
     (([], Some ResourceError),
      [Call_getSecret, Call_NewOCI, Call_ChangeRegion ''eu-frankfurt-1'', Call_vcn_Create ''p-demo''])
   \<and> CreatePreconfiguredVCN env_ok oke0 ''demo'' [] =
     ((''vcn1'', None),
      [Call_getSecret, Call_NewOCI, Call_ChangeRegion ''eu-frankfurt-1'', Call_vcn_Create ''p-demo''])"
proof -
  have a: "vcn_Create env_no_vcn_id
             ([] @ [Call_getSecret, Call_NewOCI, Call_ChangeRegion (cm_Location (modelCluster oke0))])
             (''p-'' @ ''demo'') = Inr \<lparr>vcn_Id = None\<rparr>"
    by (simp add: env_no_vcn_id_def env_ok_def)
  have b: "vcn_Create env_ok
             ([] @ [Call_getSecret, Call_NewOCI, Call_ChangeRegion (cm_Location (modelCluster oke0))])
             (''p-'' @ ''demo'') = Inr \<lparr>vcn_Id = Some ''vcn1''\<rparr>"
    by (simp add: env_ok_def)
  show ?thesis
    using CreatePreconfiguredVCN_spec [where oke = oke0 and h = "[]" and name = "''demo''", OF client_env_no_vcn_id] a
      CreatePreconfiguredVCN_spec [where oke = oke0 and h = "[]" and name = "''demo''", OF GetOCIWithRegion_env_ok] b
    by (simp add: oke0_def prod_eq_iff)
qed

section \<open>Properties of the status views\<close>

text \<open>
  Claim C5. Whatever the stored aggregate and its status are, when the container engine
  answers the query with a live cluster whose lifecycle state is not ACTIVE,
  \<open>GetClusterDetails\<close> returns no response and the error \<open>ErrorClusterNotReady\<close>.
\<close>

theorem GetClusterDetails_not_ready:
  assumes "GetOCIWithRegion env oke (cm_Location (modelCluster oke)) h = (None, h1)"
    and "NewContainerEngineClient env h1 = None"
    and "GetCluster env (h1 @ [Call_NewContainerEngineClient]) (cl_OCID (cm_OKE (modelCluster oke))) = Inr cluster"
    and "lc_LifecycleState cluster \<noteq> ''ACTIVE''"
  shows "fst (GetClusterDetails env oke h) = (None, Some ErrorClusterNotReady)"
  using assms by (simp add: GetClusterDetails_def Let_def)

theorem GetClusterDetails_not_ready_witness:
  "cm_Status (modelCluster oke0) = ''RUNNING''
   \<and> fst (GetClusterDetails env_creating oke0 []) = (None, Some ErrorClusterNotReady)"
proof -
  have a: "NewContainerEngineClient env_creating
             ([] @ [Call_getSecret, Call_NewOCI, Call_ChangeRegion (cm_Location (modelCluster oke0))]) = None"
    by (simp add: env_creating_def env_ok_def)
  have b: "GetCluster env_creating
             (([] @ [Call_getSecret, Call_NewOCI, Call_ChangeRegion (cm_Location (modelCluster oke0))])
                @ [Call_NewContainerEngineClient])
             (cl_OCID (cm_OKE (modelCluster oke0))) = Inr \<lparr>lc_LifecycleState = ''CREATING''\<rparr>"
    by (simp add: env_creating_def env_ok_def)
  have c: "lc_LifecycleState \<lparr>lc_LifecycleState = ''CREATING''\<rparr> \<noteq> ''ACTIVE''" by simp
  show ?thesis
    using GetClusterDetails_not_ready [OF client_env_creating a b c] by (simp add: oke0_def)
qed

lemma sint_word_of_nat_small:
  assumes "k < 2 ^ 63"
  shows "sint (word_of_nat k :: goint) = int k"
proof -
  have "k < 2 ^ LENGTH(64)" using assms by simp
  then have "unat (word_of_nat k :: goint) = k"
    by (rule of_nat_inverse [OF refl])
  then have "uint (word_of_nat k :: goint) = int k"
    by (metis uint_nat)
  moreover have "sint (word_of_nat k :: goint) = signed_take_bit 63 (uint (word_of_nat k :: goint))"
    by (simp add: sint_uint)
  moreover have "signed_take_bit 63 (int k) = int k"
  proof (rule signed_take_bit_int_eq_self)
    show "- (2 ^ 63) \<le> int k" by simp
    from assms have "int k < int (2 ^ 63)" by (simp only: of_nat_less_iff)
    then show "int k < 2 ^ 63" by simp
  qed
  ultimately show ?thesis by simp
qed

lemma getNodeCount_value:
  assumes "unat (np_QuantityPerSubnet np) * length (np_Subnets np) < 2 ^ 63"
  shows "sint (getNodeCount np) = int (unat (np_QuantityPerSubnet np) * length (np_Subnets np))"
proof -
  have "getNodeCount np = word_of_nat (unat (np_QuantityPerSubnet np) * length (np_Subnets np))"
    by (simp add: getNodeCount_def)
  then show ?thesis by (simp only: sint_word_of_nat_small [OF assms])
qed

lemma statusNodePools_entry:
  "statusNodePools m nps name = Some st \<Longrightarrow>
     m name = Some st \<or> (\<exists>np. Some np \<in> set nps \<and> np_Name np = name \<and> st = nodePoolStatus np)"
  by (induction m nps rule: statusNodePools.induct) (auto split: if_splits)

lemma statusNodePools_other:
  "\<forall>np. Some np \<in> set nps \<longrightarrow> np_Name np \<noteq> name \<Longrightarrow> statusNodePools m nps name = m name"
  by (induction m nps rule: statusNodePools.induct) auto

lemma statusNodePools_last:
  assumes "i < length nps" and "nps ! i = Some np"
    and "\<forall>j np'. i < j \<and> j < length nps \<and> nps ! j = Some np' \<longrightarrow> np_Name np' \<noteq> np_Name np"
  shows "statusNodePools m nps (np_Name np) = Some (nodePoolStatus np)"
  using assms
proof (induction m nps arbitrary: i rule: statusNodePools.induct)
  case (1 m)
  then show ?case by simp
next
  case (2 m nps)
  from "2.prems"(1,2) obtain k where k: "i = Suc k" "k < length nps" "nps ! k = Some np"
    by (cases i) auto
  have later: "\<forall>j np'. k < j \<and> j < length nps \<and> nps ! j = Some np' \<longrightarrow> np_Name np' \<noteq> np_Name np"
  proof (intro allI impI)
    fix j np' assume a: "k < j \<and> j < length nps \<and> nps ! j = Some np'"
    with "2.prems"(3) [rule_format, of "Suc j" np'] k(1) show "np_Name np' \<noteq> np_Name np" by simp
  qed
  from "2.IH" [OF k(2) k(3) later] show ?case by simp
next
  case (3 m p nps)
  show ?case
  proof (cases i)
    case 0
    with "3.prems"(2) have eq: "p = np" by simp
    have "\<forall>np'. Some np' \<in> set nps \<longrightarrow> np_Name np' \<noteq> np_Name np"
    proof (intro allI impI)
      fix np' assume "Some np' \<in> set nps"
      then obtain j where j: "j < length nps" "nps ! j = Some np'" by (auto simp: in_set_conv_nth)
      with "3.prems"(3) [rule_format, of "Suc j" np'] 0 show "np_Name np' \<noteq> np_Name np" by simp
    qed
    from statusNodePools_other [OF this] eq show ?thesis by simp
  next
    case (Suc k)
    with "3.prems"(1,2) have k: "k < length nps" "nps ! k = Some np" by simp_all
    have later: "\<forall>j np'. k < j \<and> j < length nps \<and> nps ! j = Some np' \<longrightarrow> np_Name np' \<noteq> np_Name np"
    proof (intro allI impI)
      fix j np' assume a: "k < j \<and> j < length nps \<and> nps ! j = Some np'"
      with "3.prems"(3) [rule_format, of "Suc j" np'] Suc show "np_Name np' \<noteq> np_Name np" by simp
    qed
    from "3.IH" [OF k later] show ?thesis by (simp only: statusNodePools.simps)
  qed
qed

lemma nodePoolStatus_fields:
  "nps_Count (nodePoolStatus np) = np_QuantityPerSubnet np * word_of_nat (length (np_Subnets np))"
  "\<not> nps_Autoscaling (nodePoolStatus np)"
  "nps_MinCount (nodePoolStatus np) = nps_Count (nodePoolStatus np)"
  "nps_MaxCount (nodePoolStatus np) = nps_Count (nodePoolStatus np)"
  by (simp_all add: nodePoolStatus_def getNodeCount_def Let_def)

lemma nodePoolStatus_sint:
  assumes "unat (np_QuantityPerSubnet np) * length (np_Subnets np) < 2 ^ 63"
  shows "sint (nps_Count (nodePoolStatus np)) = int (unat (np_QuantityPerSubnet np) * length (np_Subnets np))"
proof -
  have "nps_Count (nodePoolStatus np) = getNodeCount np" by (simp add: nodePoolStatus_def Let_def)
  with getNodeCount_value [OF assms] show ?thesis by simp
qed

text \<open>
  Claim C7, as stated: for each non-nil pool of the aggregate, \<open>GetStatus\<close> reports the count
  of that pool. The view is a map keyed by pool name, so this fails where two pools share a
  name: of the pools \<open>a\<close> with 3 instances on each of 3 subnets, a nil pointer, and another
  \<open>a\<close> with 5 instances on 1 subnet, the view holds one entry \<open>a\<close>, with count 5 and not 9.
\<close>

theorem GetStatus_node_pools_counterexample:
  "cl_NodePools (cm_OKE (modelCluster oke_same_name)) ! 0 = Some pool_a
   \<and> gsr_NodePools (fst (GetStatus env_ok oke_same_name)) (np_Name pool_a) = Some (nodePoolStatus pool_a2)
   \<and> nps_Count (nodePoolStatus pool_a2) = 5
   \<and> np_QuantityPerSubnet pool_a * word_of_nat (length (np_Subnets pool_a)) = (9::goint)"
  by (simp add: oke_same_name_def GetStatus_def pool_a_def pool_a2_def nodePoolStatus_def
      getNodeCount_def Let_def)

text \<open>
  Claim C7, amended. For every stored aggregate, \<open>GetStatus\<close> returns no error, and its pool
  view is computed from the aggregate alone, the same under every environment. The view has
  one entry for each name that a non-nil pool bears and no other entry; the entry is that of
  the last non-nil pool of that name in the list, a pool's own entry when no later pool
  shares its name. In that entry the count is the pool's quantity per subnet times the
  number of its subnets (in 64-bit arithmetic, and as integers whenever the product fits),
  autoscaling is off, and the minimum and the maximum are the count.
\<close>

theorem GetStatus_node_pools:
  assumes "GetStatus env oke = (resp, err)"
  shows "err = None
     \<and> (\<forall>i np. i < length (cl_NodePools (cm_OKE (modelCluster oke)))
              \<and> cl_NodePools (cm_OKE (modelCluster oke)) ! i = Some np
              \<and> (\<forall>j np'. i < j \<and> j < length (cl_NodePools (cm_OKE (modelCluster oke)))
                        \<and> cl_NodePools (cm_OKE (modelCluster oke)) ! j = Some np'
                        \<longrightarrow> np_Name np' \<noteq> np_Name np) \<longrightarrow>
           gsr_NodePools resp (np_Name np) = Some (nodePoolStatus np)
           \<and> nps_Count (nodePoolStatus np) = np_QuantityPerSubnet np * word_of_nat (length (np_Subnets np))
           \<and> (unat (np_QuantityPerSubnet np) * length (np_Subnets np) < 2 ^ 63 \<longrightarrow>
                sint (nps_Count (nodePoolStatus np))
                  = int (unat (np_QuantityPerSubnet np) * length (np_Subnets np)))
           \<and> \<not> nps_Autoscaling (nodePoolStatus np)
           \<and> nps_MinCount (nodePoolStatus np) = nps_Count (nodePoolStatus np)
           \<and> nps_MaxCount (nodePoolStatus np) = nps_Count (nodePoolStatus np))
     \<and> (\<forall>name. (\<forall>np. Some np \<in> set (cl_NodePools (cm_OKE (modelCluster oke))) \<longrightarrow> np_Name np \<noteq> name)
              \<longrightarrow> gsr_NodePools resp name = None)
     \<and> (\<forall>name st. gsr_NodePools resp name = Some st \<longrightarrow>
           (\<exists>np. Some np \<in> set (cl_NodePools (cm_OKE (modelCluster oke))) \<and> np_Name np = name
                \<and> st = nodePoolStatus np))
     \<and> (\<forall>env'. gsr_NodePools (fst (GetStatus env' oke)) = gsr_NodePools resp)"
proof -
  let ?pools = "cl_NodePools (cm_OKE (modelCluster oke))"
  have np: "gsr_NodePools resp = statusNodePools Map.empty ?pools" and e: "err = None"
    using assms by (auto simp: GetStatus_def)
  have a: "gsr_NodePools resp (np_Name p) = Some (nodePoolStatus p)
           \<and> nps_Count (nodePoolStatus p) = np_QuantityPerSubnet p * word_of_nat (length (np_Subnets p))
           \<and> (unat (np_QuantityPerSubnet p) * length (np_Subnets p) < 2 ^ 63 \<longrightarrow>
                sint (nps_Count (nodePoolStatus p))
                  = int (unat (np_QuantityPerSubnet p) * length (np_Subnets p)))
           \<and> \<not> nps_Autoscaling (nodePoolStatus p)
           \<and> nps_MinCount (nodePoolStatus p) = nps_Count (nodePoolStatus p)
           \<and> nps_MaxCount (nodePoolStatus p) = nps_Count (nodePoolStatus p)"
    if "i < length ?pools \<and> ?pools ! i = Some p
        \<and> (\<forall>j np'. i < j \<and> j < length ?pools \<and> ?pools ! j = Some np' \<longrightarrow> np_Name np' \<noteq> np_Name p)"
    for i p
  proof -
    from that have "statusNodePools Map.empty ?pools (np_Name p) = Some (nodePoolStatus p)"
      by (intro statusNodePools_last [of i]) simp_all
    with np nodePoolStatus_fields [of p] nodePoolStatus_sint [of p] show ?thesis by simp
  qed
  have b: "gsr_NodePools resp name = None"
    if "\<forall>np. Some np \<in> set ?pools \<longrightarrow> np_Name np \<noteq> name" for name
    using statusNodePools_other [OF that, of Map.empty] np by simp
  have c: "\<exists>p. Some p \<in> set ?pools \<and> np_Name p = name \<and> st = nodePoolStatus p"
    if "gsr_NodePools resp name = Some st" for name st
    using statusNodePools_entry [of Map.empty ?pools name st] that np by auto
  have d: "gsr_NodePools (fst (GetStatus env' oke)) = gsr_NodePools resp" for env'
    using np by (simp add: GetStatus_def)
  show ?thesis
  proof (intro conjI allI impI)
    show "err = None" by (rule e)
  next
    fix i p
    assume h: "i < length ?pools \<and> ?pools ! i = Some p
        \<and> (\<forall>j np'. i < j \<and> j < length ?pools \<and> ?pools ! j = Some np' \<longrightarrow> np_Name np' \<noteq> np_Name p)"
    note r = a [OF h]
    from r show "gsr_NodePools resp (np_Name p) = Some (nodePoolStatus p)" by blast
    from r show "nps_Count (nodePoolStatus p) = np_QuantityPerSubnet p * word_of_nat (length (np_Subnets p))"
      by blast
    from r show "\<not> nps_Autoscaling (nodePoolStatus p)" by blast
    from r show "nps_MinCount (nodePoolStatus p) = nps_Count (nodePoolStatus p)" by blast
    from r show "nps_MaxCount (nodePoolStatus p) = nps_Count (nodePoolStatus p)" by blast
    assume "unat (np_QuantityPerSubnet p) * length (np_Subnets p) < 2 ^ 63"
    with r show "sint (nps_Count (nodePoolStatus p))
                  = int (unat (np_QuantityPerSubnet p) * length (np_Subnets p))" by blast
  next
    fix name assume "\<forall>np. Some np \<in> set ?pools \<longrightarrow> np_Name np \<noteq> name"
    then show "gsr_NodePools resp name = None" by (rule b)
  next
    fix name st assume "gsr_NodePools resp name = Some st"
    then show "\<exists>np. Some np \<in> set ?pools \<and> np_Name np = name \<and> st = nodePoolStatus np" by (rule c)
  next
    fix env' show "gsr_NodePools (fst (GetStatus env' oke)) = gsr_NodePools resp" by (rule d)
  qed
qed

theorem GetStatus_node_pools_witness:
  "gsr_NodePools (fst (GetStatus env_ok oke0)) ''a'' = Some (nodePoolStatus pool_a)
   \<and> nps_Count (nodePoolStatus pool_a) = 9
   \<and> sint (nps_Count (nodePoolStatus pool_a)) = 9
   \<and> gsr_NodePools (fst (GetStatus env_ok oke_same_name)) ''a'' = Some (nodePoolStatus pool_a2)
   \<and> nps_Count (nodePoolStatus pool_a2) = 5
   \<and> snd (GetStatus env_ok oke0) = None"
proof -
  have run0: "GetStatus env_ok oke0 = (fst (GetStatus env_ok oke0), snd (GetStatus env_ok oke0))"
    by simp
  have run1: "GetStatus env_ok oke_same_name
                = (fst (GetStatus env_ok oke_same_name), snd (GetStatus env_ok oke_same_name))"
    by simp
  have pools0: "cl_NodePools (cm_OKE (modelCluster oke0)) = [Some pool_a, Some pool_b]"
    by (simp add: oke0_def cluster0_def)
  have pools1: "cl_NodePools (cm_OKE (modelCluster oke_same_name)) = [Some pool_a, None, Some pool_a2]"
    by (simp add: oke_same_name_def)
  have names: "np_Name pool_a = ''a''" "np_Name pool_b = ''b''" "np_Name pool_a2 = ''a''"
    by (simp_all add: pool_a_def pool_b_def pool_a2_def)
  have fits: "unat (np_QuantityPerSubnet pool_a) * length (np_Subnets pool_a) < 2 ^ 63"
    "int (unat (np_QuantityPerSubnet pool_a) * length (np_Subnets pool_a)) = 9"
    by (simp_all add: pool_a_def)
  have p0: "0 < length (cl_NodePools (cm_OKE (modelCluster oke0)))
            \<and> cl_NodePools (cm_OKE (modelCluster oke0)) ! 0 = Some pool_a
            \<and> (\<forall>j np'. 0 < j \<and> j < length (cl_NodePools (cm_OKE (modelCluster oke0)))
                      \<and> cl_NodePools (cm_OKE (modelCluster oke0)) ! j = Some np'
                      \<longrightarrow> np_Name np' \<noteq> np_Name pool_a)"
    unfolding pools0 using names by (auto simp: nth_Cons' less_Suc_eq)
  have p1: "2 < length (cl_NodePools (cm_OKE (modelCluster oke_same_name)))
            \<and> cl_NodePools (cm_OKE (modelCluster oke_same_name)) ! 2 = Some pool_a2
            \<and> (\<forall>j np'. 2 < j \<and> j < length (cl_NodePools (cm_OKE (modelCluster oke_same_name)))
                      \<and> cl_NodePools (cm_OKE (modelCluster oke_same_name)) ! j = Some np'
                      \<longrightarrow> np_Name np' \<noteq> np_Name pool_a2)"
    unfolding pools1 by (auto simp: nth_Cons')
  note t0 = GetStatus_node_pools [OF run0]
  note t1 = GetStatus_node_pools [OF run1]
  from t0 have e0: "snd (GetStatus env_ok oke0) = None" by (rule conjunct1)
  note q0 = t0 [THEN conjunct2, THEN conjunct1, rule_format, OF p0]
  from q0 have "gsr_NodePools (fst (GetStatus env_ok oke0)) (np_Name pool_a) = Some (nodePoolStatus pool_a)"
    by (rule conjunct1)
  then have r0a: "gsr_NodePools (fst (GetStatus env_ok oke0)) ''a'' = Some (nodePoolStatus pool_a)"
    by (simp only: names)
  from q0 fits(1) have "sint (nps_Count (nodePoolStatus pool_a))
      = int (unat (np_QuantityPerSubnet pool_a) * length (np_Subnets pool_a))"
    by blast
  then have r0b: "sint (nps_Count (nodePoolStatus pool_a)) = 9"
    by (simp only: fits(2))
  note r0 = r0a r0b
  from t1 [THEN conjunct2, THEN conjunct1, rule_format, OF p1]
  have "gsr_NodePools (fst (GetStatus env_ok oke_same_name)) (np_Name pool_a2) = Some (nodePoolStatus pool_a2)"
    by (rule conjunct1)
  then have r1: "gsr_NodePools (fst (GetStatus env_ok oke_same_name)) ''a'' = Some (nodePoolStatus pool_a2)"
    by (simp only: names)
  have counts: "nps_Count (nodePoolStatus pool_a) = 9" "nps_Count (nodePoolStatus pool_a2) = 5"
    by (simp_all add: nodePoolStatus_def getNodeCount_def pool_a_def pool_a2_def Let_def)
  from e0 r0 r1 counts show ?thesis by (intro conjI)
qed

section \<open>Properties of the lifecycle controller\<close>

subsection \<open>Update\<close>


















subsection \<open>Delete\<close>

lemma GetOCIWithRegion_history:
  assumes "GetOCIWithRegion env oke region h = (res, h1)"
  shows "\<exists>g. h1 = h @ g \<and> list_all is_client_call g"
  using assms
  by (auto simp: GetOCIWithRegion_def GetOCI_def split: sum.splits option.splits prod.splits)

lemma GetClusterManager_history:
  assumes "GetClusterManager env oke h = (res, h1)"
  shows "\<exists>g. h1 = h @ g \<and> list_all is_client_call g"
  using assms GetOCIWithRegion_history [of env oke "cm_Location (modelCluster oke)" h]
  by (auto simp: GetClusterManager_def split: option.splits prod.splits)

lemma client_calls_no_apply:
  "list_all is_client_call g \<Longrightarrow> Call_ManageOKECluster c \<notin> set g"
  by (auto simp: list_all_iff)

lemma client_calls_no_delete:
  "list_all is_client_call g \<Longrightarrow> Call_vcn_Delete v \<notin> set g"
  by (auto simp: list_all_iff)

lemma DeleteCluster_cases:
  assumes "DeleteCluster env oke h = (res, oke', h')"
  obtains
    (no_manager) g1 where "list_all is_client_call g1" "h' = h @ g1" "res \<noteq> None"
  | (apply_fails) g1 m err where "list_all is_client_call g1"
      "ManageOKECluster env (h @ g1) ((cm_OKE (modelCluster oke))\<lparr>cl_Delete := True\<rparr>) = (m, Some err)"
      "res = Some err"
      "h' = h @ g1 @ [Call_ManageOKECluster ((cm_OKE (modelCluster oke))\<lparr>cl_Delete := True\<rparr>)]"
  | (no_client) g1 m g2 where "list_all is_client_call g1" "list_all is_client_call g2"
      "ManageOKECluster env (h @ g1) ((cm_OKE (modelCluster oke))\<lparr>cl_Delete := True\<rparr>) = (m, None)"
      "res \<noteq> None"
      "h' = h @ g1 @ Call_ManageOKECluster ((cm_OKE (modelCluster oke))\<lparr>cl_Delete := True\<rparr>) # g2"
  | (deleted) g1 m g2 where "list_all is_client_call g1" "list_all is_client_call g2"
      "ManageOKECluster env (h @ g1) ((cm_OKE (modelCluster oke))\<lparr>cl_Delete := True\<rparr>) = (m, None)"
      "res = vcn_Delete env
               (h @ g1 @ Call_ManageOKECluster ((cm_OKE (modelCluster oke))\<lparr>cl_Delete := True\<rparr>) # g2)
               (cl_VCNID m)"
      "h' = h @ g1 @ Call_ManageOKECluster ((cm_OKE (modelCluster oke))\<lparr>cl_Delete := True\<rparr>) # g2
               @ [Call_vcn_Delete (cl_VCNID m)]"
proof -
  let ?spec = "(cm_OKE (modelCluster oke))\<lparr>cl_Delete := True\<rparr>"
  let ?oke1 = "oke\<lparr>modelCluster := (modelCluster oke)\<lparr>cm_OKE := ?spec\<rparr>\<rparr>"
  obtain r1 h1 where cm: "GetClusterManager env ?oke1 h = (r1, h1)"
    by (cases "GetClusterManager env ?oke1 h")
  from GetClusterManager_history [OF cm] obtain g1 where g1: "h1 = h @ g1" "list_all is_client_call g1"
    by blast
  show thesis
  proof (cases r1)
    case (Some e)
    with cm assms g1 have "h' = h @ g1" "res \<noteq> None"
      by (auto simp: DeleteCluster_def Let_def)
    with g1(2) show thesis by (intro no_manager [of g1])
  next
    case None
    obtain m r2 where ap: "ManageOKECluster env h1 ?spec = (m, r2)"
      by (cases "ManageOKECluster env h1 ?spec")
    show thesis
    proof (cases r2)
      case (Some e)
      with None cm ap assms g1 have "res = Some e" "h' = h @ g1 @ [Call_ManageOKECluster ?spec]"
        by (auto simp: DeleteCluster_def Let_def)
      moreover from ap Some g1(1) have "ManageOKECluster env (h @ g1) ?spec = (m, Some e)" by simp
      ultimately show thesis using g1(2) by (intro apply_fails [of g1 m e])
    next
      case None2: None
      let ?oke2 = "?oke1\<lparr>modelCluster := (modelCluster ?oke1)\<lparr>cm_OKE := m\<rparr>\<rparr>"
      let ?h2 = "h1 @ [Call_ManageOKECluster ?spec]"
      from ap None2 g1(1) have ap': "ManageOKECluster env (h @ g1) ?spec = (m, None)" by simp
      have dc: "DeletePreconfiguredVCN env ?oke2 (cl_VCNID m) ?h2 = (res, h')"
        using None None2 cm ap assms
        by (auto simp: DeleteCluster_def Let_def split: prod.splits option.splits)
      obtain r3 h3 where oc: "GetOCIWithRegion env ?oke2 (cm_Location (modelCluster ?oke2)) ?h2 = (r3, h3)"
        by (cases "GetOCIWithRegion env ?oke2 (cm_Location (modelCluster ?oke2)) ?h2")
      from GetOCIWithRegion_history [OF oc] obtain g2 where g2: "h3 = ?h2 @ g2" "list_all is_client_call g2"
        by blast
      show thesis
      proof (cases r3)
        case (Some e)
        with dc oc g2 g1 have "res \<noteq> None" "h' = h @ g1 @ Call_ManageOKECluster ?spec # g2"
          by (auto simp: DeletePreconfiguredVCN_def)
        with g1(2) g2(2) ap' show thesis by (intro no_client [of g1 g2 m])
      next
        case None3: None
        with dc oc g2 g1 have
          "res = vcn_Delete env (h @ g1 @ Call_ManageOKECluster ?spec # g2) (cl_VCNID m)"
          "h' = h @ g1 @ Call_ManageOKECluster ?spec # g2 @ [Call_vcn_Delete (cl_VCNID m)]"
          by (auto simp: DeletePreconfiguredVCN_def)
        with g1(2) g2(2) ap' show thesis by (intro deleted [of g1 g2 m])
      qed
    qed
  qed
qed

lemma split_at_unique:
  assumes "x \<notin> set xs" and "x \<notin> set ys" and "xs @ x # ys = pre @ x # post"
  shows "pre = xs \<and> post = ys"
  using assms append_Cons_eq_iff [of x xs ys pre post] by auto

lemma DeleteCluster_trace:
  assumes "DeleteCluster env oke h = (res, oke', h')"
  shows "\<exists>new. h' = h @ new
     \<and> (\<forall>c. Call_ManageOKECluster c \<in> set new \<longrightarrow>
           c = (cm_OKE (modelCluster oke))\<lparr>cl_Delete := True\<rparr> \<and> cl_Delete c)
     \<and> (\<forall>v. Call_vcn_Delete v \<in> set new \<longrightarrow>
           (\<exists>pre post m.
              new = pre @ Call_ManageOKECluster ((cm_OKE (modelCluster oke))\<lparr>cl_Delete := True\<rparr>)
                      # post @ [Call_vcn_Delete v]
              \<and> ManageOKECluster env (h @ pre) ((cm_OKE (modelCluster oke))\<lparr>cl_Delete := True\<rparr>) = (m, None)
              \<and> v = cl_VCNID m
              \<and> list_all is_client_call pre \<and> list_all is_client_call post))
     \<and> (\<forall>pre post m err.
           new = pre @ Call_ManageOKECluster ((cm_OKE (modelCluster oke))\<lparr>cl_Delete := True\<rparr>) # post
           \<and> ManageOKECluster env (h @ pre) ((cm_OKE (modelCluster oke))\<lparr>cl_Delete := True\<rparr>) = (m, Some err)
           \<longrightarrow> res = Some err \<and> post = [] \<and> (\<forall>v. Call_vcn_Delete v \<notin> set new))
     \<and> (res = None \<longrightarrow> (\<exists>v. Call_vcn_Delete v \<in> set new))"
proof -
  define spec where "spec = (cm_OKE (modelCluster oke))\<lparr>cl_Delete := True\<rparr>"
  define A where "A = Call_ManageOKECluster spec"
  have sd: "cl_Delete spec" by (simp add: spec_def)
  have Aeq: "c = spec" if "Call_ManageOKECluster c = A" for c using that by (simp add: A_def)
  have Anot: "A \<notin> set g" if "list_all is_client_call g" for g
    using that by (auto simp: A_def list_all_iff)
  have AnD: "Call_vcn_Delete v \<noteq> A" for v by (simp add: A_def)
  let ?C2 = "\<lambda>new. \<forall>c. Call_ManageOKECluster c \<in> set new \<longrightarrow> c = spec \<and> cl_Delete c"
  let ?C3 = "\<lambda>new. \<forall>v. Call_vcn_Delete v \<in> set new \<longrightarrow>
           (\<exists>pre post m. new = pre @ A # post @ [Call_vcn_Delete v]
              \<and> ManageOKECluster env (h @ pre) spec = (m, None) \<and> v = cl_VCNID m
              \<and> list_all is_client_call pre \<and> list_all is_client_call post)"
  let ?C4 = "\<lambda>new. \<forall>pre post m err.
           new = pre @ A # post \<and> ManageOKECluster env (h @ pre) spec = (m, Some err)
           \<longrightarrow> res = Some err \<and> post = [] \<and> (\<forall>v. Call_vcn_Delete v \<notin> set new)"
  let ?C5 = "\<lambda>new. res = None \<longrightarrow> (\<exists>v. Call_vcn_Delete v \<in> set new)"
  have main: "\<exists>new. h' = h @ new \<and> ?C2 new \<and> ?C3 new \<and> ?C4 new \<and> ?C5 new"
    using assms
  proof (cases rule: DeleteCluster_cases)
    case (no_manager g1)
    note na = client_calls_no_apply [OF no_manager(1)]
    note nd = client_calls_no_delete [OF no_manager(1)]
    have c2: "?C2 g1" using na by blast
    have c3: "?C3 g1" using nd by blast
    have c4: "?C4 g1"
    proof (intro allI impI)
      fix pre post m err
      assume "g1 = pre @ A # post \<and> ManageOKECluster env (h @ pre) spec = (m, Some err)"
      then have "A \<in> set g1" by simp
      with Anot [OF no_manager(1)] have False by simp
      then show "res = Some err \<and> post = [] \<and> (\<forall>v. Call_vcn_Delete v \<notin> set g1)" ..
    qed
    have c5: "?C5 g1" using no_manager(3) by blast
    show ?thesis by (rule exI [of _ g1]) (intro conjI no_manager(2) c2 c3 c4 c5)
  next
    case (apply_fails g1 m err)
    note f = apply_fails [folded spec_def, folded A_def]
    note na = client_calls_no_apply [OF f(1)]
    note nd = client_calls_no_delete [OF f(1)]
    have mem: "x \<in> set (g1 @ [A]) \<longleftrightarrow> x \<in> set g1 \<or> x = A" for x by auto
    have c2: "?C2 (g1 @ [A])" using na sd Aeq unfolding mem by blast
    have c3: "?C3 (g1 @ [A])" using nd AnD unfolding mem by blast
    have c4: "?C4 (g1 @ [A])"
    proof (intro allI impI)
      fix pre post m' err'
      assume a: "g1 @ [A] = pre @ A # post \<and> ManageOKECluster env (h @ pre) spec = (m', Some err')"
      from split_at_unique [of A g1 "[]" pre post] Anot [OF f(1)] a
      have p: "pre = g1" "post = []" by simp_all
      from a p f(2) f(3) have "res = Some err'" by simp
      moreover have "\<forall>v. Call_vcn_Delete v \<notin> set (g1 @ [A])" using nd AnD unfolding mem by blast
      ultimately show "res = Some err' \<and> post = [] \<and> (\<forall>v. Call_vcn_Delete v \<notin> set (g1 @ [A]))"
        using p(2) by blast
    qed
    have c5: "?C5 (g1 @ [A])" using f(3) by blast
    show ?thesis by (rule exI [of _ "g1 @ [A]"]) (intro conjI f(4) c2 c3 c4 c5)
  next
    case (no_client g1 m g2)
    note f = no_client [folded spec_def, folded A_def]
    note na = client_calls_no_apply [OF f(1)] client_calls_no_apply [OF f(2)]
    note nd = client_calls_no_delete [OF f(1)] client_calls_no_delete [OF f(2)]
    have mem: "x \<in> set (g1 @ A # g2) \<longleftrightarrow> x \<in> set g1 \<or> x = A \<or> x \<in> set g2" for x by auto
    have c2: "?C2 (g1 @ A # g2)" using na sd Aeq unfolding mem by blast
    have c3: "?C3 (g1 @ A # g2)" using nd AnD unfolding mem by blast
    have c4: "?C4 (g1 @ A # g2)"
    proof (intro allI impI)
      fix pre post m' err'
      assume a: "g1 @ A # g2 = pre @ A # post \<and> ManageOKECluster env (h @ pre) spec = (m', Some err')"
      from split_at_unique [of A g1 g2 pre post] Anot [OF f(1)] Anot [OF f(2)] a
      have p: "pre = g1" by simp
      from a p f(3) have False by simp
      then show "res = Some err' \<and> post = [] \<and> (\<forall>v. Call_vcn_Delete v \<notin> set (g1 @ A # g2))" ..
    qed
    have c5: "?C5 (g1 @ A # g2)" using f(4) by blast
    show ?thesis by (rule exI [of _ "g1 @ A # g2"]) (intro conjI f(5) c2 c3 c4 c5)
  next
    case (deleted g1 m g2)
    note f = deleted [folded spec_def, folded A_def]
    define D where "D = Call_vcn_Delete (cl_VCNID m)"
    note na = client_calls_no_apply [OF f(1)] client_calls_no_apply [OF f(2)]
    note nd = client_calls_no_delete [OF f(1)] client_calls_no_delete [OF f(2)]
    have AD: "A \<noteq> D" by (simp add: A_def D_def)
    have Dv: "v = cl_VCNID m" if "Call_vcn_Delete v = D" for v using that by (simp add: D_def)
    have DnA: "Call_ManageOKECluster c \<noteq> D" for c by (simp add: D_def)
    have mem: "x \<in> set (g1 @ A # g2 @ [D]) \<longleftrightarrow> x \<in> set g1 \<or> x = A \<or> x \<in> set g2 \<or> x = D" for x
      by auto
    have c1: "h' = h @ g1 @ A # g2 @ [D]" using f(5) by (simp add: D_def)
    have c2: "?C2 (g1 @ A # g2 @ [D])" using na sd Aeq DnA unfolding mem by blast
    have c3: "?C3 (g1 @ A # g2 @ [D])"
    proof (intro allI impI)
      fix v assume "Call_vcn_Delete v \<in> set (g1 @ A # g2 @ [D])"
      with nd AnD have "Call_vcn_Delete v = D" unfolding mem by blast
      with Dv have v: "v = cl_VCNID m" "D = Call_vcn_Delete v" by simp_all
      show "\<exists>pre post m. g1 @ A # g2 @ [D] = pre @ A # post @ [Call_vcn_Delete v]
              \<and> ManageOKECluster env (h @ pre) spec = (m, None) \<and> v = cl_VCNID m
              \<and> list_all is_client_call pre \<and> list_all is_client_call post"
        using v f(1) f(2) f(3)
        by (intro exI [of _ g1] exI [of _ g2] exI [of _ m]) simp
    qed
    have c4: "?C4 (g1 @ A # g2 @ [D])"
    proof (intro allI impI)
      fix pre post m' err'
      assume a: "g1 @ A # g2 @ [D] = pre @ A # post \<and> ManageOKECluster env (h @ pre) spec = (m', Some err')"
      have "A \<notin> set (g2 @ [D])" using Anot [OF f(2)] AD by simp
      from split_at_unique [of A g1 "g2 @ [D]" pre post] Anot [OF f(1)] this a
      have p: "pre = g1" by simp
      from a p f(3) have False by simp
      then show "res = Some err' \<and> post = [] \<and> (\<forall>v. Call_vcn_Delete v \<notin> set (g1 @ A # g2 @ [D]))" ..
    qed
    have c5: "?C5 (g1 @ A # g2 @ [D])"
    proof
      have "Call_vcn_Delete (cl_VCNID m) \<in> set (g1 @ A # g2 @ [D])" by (simp add: D_def)
      then show "\<exists>v. Call_vcn_Delete v \<in> set (g1 @ A # g2 @ [D])" ..
    qed
    show ?thesis by (rule exI [of _ "g1 @ A # g2 @ [D]"]) (intro conjI c1 c2 c3 c4 c5)
  qed
  then show ?thesis unfolding A_def spec_def .
qed

lemma DeleteCluster_steps:
  assumes "DeleteCluster env oke h = (res, oke', h')"
  shows "(\<forall>err h1.
         GetClusterManager env
           (oke\<lparr>modelCluster := (modelCluster oke)\<lparr>cm_OKE := (cm_OKE (modelCluster oke))\<lparr>cl_Delete := True\<rparr>\<rparr>\<rparr>) h
           = (Some err, h1) \<longrightarrow>
         res = Some err \<and> h' = h1
         \<and> oke' = oke\<lparr>modelCluster := (modelCluster oke)\<lparr>cm_OKE := (cm_OKE (modelCluster oke))\<lparr>cl_Delete := True\<rparr>\<rparr>\<rparr>)
     \<and> (\<forall>h1 m r2.
         GetClusterManager env
           (oke\<lparr>modelCluster := (modelCluster oke)\<lparr>cm_OKE := (cm_OKE (modelCluster oke))\<lparr>cl_Delete := True\<rparr>\<rparr>\<rparr>) h
           = (None, h1)
         \<and> ManageOKECluster env h1 ((cm_OKE (modelCluster oke))\<lparr>cl_Delete := True\<rparr>) = (m, r2) \<longrightarrow>
         (\<exists>rest. h' = h1 @ Call_ManageOKECluster ((cm_OKE (modelCluster oke))\<lparr>cl_Delete := True\<rparr>) # rest)
         \<and> oke' = oke\<lparr>modelCluster := (modelCluster oke)\<lparr>cm_OKE := m\<rparr>\<rparr>
         \<and> (\<forall>err. r2 = Some err \<longrightarrow>
                res = Some err
                \<and> h' = h1 @ [Call_ManageOKECluster ((cm_OKE (modelCluster oke))\<lparr>cl_Delete := True\<rparr>)])
         \<and> (r2 = None \<longrightarrow>
               (\<forall>err h3.
                  GetOCIWithRegion env oke' (cm_Location (modelCluster oke'))
                    (h1 @ [Call_ManageOKECluster ((cm_OKE (modelCluster oke))\<lparr>cl_Delete := True\<rparr>)])
                    = (Some err, h3) \<longrightarrow>
                  res = Some err \<and> h' = h3)
               \<and> (\<forall>h3.
                  GetOCIWithRegion env oke' (cm_Location (modelCluster oke'))
                    (h1 @ [Call_ManageOKECluster ((cm_OKE (modelCluster oke))\<lparr>cl_Delete := True\<rparr>)])
                    = (None, h3) \<longrightarrow>
                  res = vcn_Delete env h3 (cl_VCNID m) \<and> h' = h3 @ [Call_vcn_Delete (cl_VCNID m)])))"
proof -
  define spec where "spec = (cm_OKE (modelCluster oke))\<lparr>cl_Delete := True\<rparr>"
  define oke1 where "oke1 = oke\<lparr>modelCluster := (modelCluster oke)\<lparr>cm_OKE := spec\<rparr>\<rparr>"
  have d: "DeleteCluster env oke h =
     (case GetClusterManager env oke1 h of
        (Some err, h1) \<Rightarrow> (Some err, oke1, h1)
      | (None, h1) \<Rightarrow>
          (case ManageOKECluster env h1 spec of
             (m, r2) \<Rightarrow>
               (case r2 of
                  Some err \<Rightarrow> (Some err, oke\<lparr>modelCluster := (modelCluster oke)\<lparr>cm_OKE := m\<rparr>\<rparr>,
                               h1 @ [Call_ManageOKECluster spec])
                | None \<Rightarrow>
                    (case DeletePreconfiguredVCN env (oke\<lparr>modelCluster := (modelCluster oke)\<lparr>cm_OKE := m\<rparr>\<rparr>)
                            (cl_VCNID m) (h1 @ [Call_ManageOKECluster spec]) of
                       (r3, h3) \<Rightarrow> (r3, oke\<lparr>modelCluster := (modelCluster oke)\<lparr>cm_OKE := m\<rparr>\<rparr>, h3)))))"
    by (simp add: DeleteCluster_def Let_def spec_def oke1_def split: prod.splits option.splits)
  have a: "res = Some err \<and> h' = h1 \<and> oke' = oke1"
    if "GetClusterManager env oke1 h = (Some err, h1)" for err h1
    using assms that by (simp add: d)
  have b: "(\<exists>rest. h' = h1 @ Call_ManageOKECluster spec # rest)
         \<and> oke' = oke\<lparr>modelCluster := (modelCluster oke)\<lparr>cm_OKE := m\<rparr>\<rparr>
         \<and> (\<forall>err. r2 = Some err \<longrightarrow> res = Some err \<and> h' = h1 @ [Call_ManageOKECluster spec])
         \<and> (r2 = None \<longrightarrow>
               (\<forall>err h3.
                  GetOCIWithRegion env oke' (cm_Location (modelCluster oke')) (h1 @ [Call_ManageOKECluster spec])
                    = (Some err, h3) \<longrightarrow>
                  res = Some err \<and> h' = h3)
               \<and> (\<forall>h3.
                  GetOCIWithRegion env oke' (cm_Location (modelCluster oke')) (h1 @ [Call_ManageOKECluster spec])
                    = (None, h3) \<longrightarrow>
                  res = vcn_Delete env h3 (cl_VCNID m) \<and> h' = h3 @ [Call_vcn_Delete (cl_VCNID m)]))"
    if g: "GetClusterManager env oke1 h = (None, h1) \<and> ManageOKECluster env h1 spec = (m, r2)" for h1 m r2
  proof (cases r2)
    case (Some e)
    with assms g have "res = Some e" "h' = h1 @ [Call_ManageOKECluster spec]"
      "oke' = oke\<lparr>modelCluster := (modelCluster oke)\<lparr>cm_OKE := m\<rparr>\<rparr>"
      by (auto simp: d)
    with Some show ?thesis by simp
  next
    case None
    define oke2 where "oke2 = oke\<lparr>modelCluster := (modelCluster oke)\<lparr>cm_OKE := m\<rparr>\<rparr>"
    define h2 where "h2 = h1 @ [Call_ManageOKECluster spec]"
    from assms g None have dc: "DeletePreconfiguredVCN env oke2 (cl_VCNID m) h2 = (res, h')"
      and o: "oke' = oke2"
      by (auto simp: d oke2_def h2_def split: prod.splits)
    obtain r3 h3 where oc: "GetOCIWithRegion env oke2 (cm_Location (modelCluster oke2)) h2 = (r3, h3)"
      by (cases "GetOCIWithRegion env oke2 (cm_Location (modelCluster oke2)) h2")
    from GetOCIWithRegion_history [OF oc] obtain g2 where g2: "h3 = h2 @ g2" by blast
    have hh: "h' = h3 \<or> h' = h3 @ [Call_vcn_Delete (cl_VCNID m)]"
      using dc oc by (cases r3) (auto simp: DeletePreconfiguredVCN_def)
    have rest: "\<exists>rest. h' = h1 @ Call_ManageOKECluster spec # rest"
      using hh g2 by (auto simp: h2_def)
    have e1: "res = Some err \<and> h' = k"
      if "GetOCIWithRegion env oke2 (cm_Location (modelCluster oke2)) h2 = (Some err, k)" for err k
      using dc that by (simp add: DeletePreconfiguredVCN_def)
    have e2: "res = vcn_Delete env k (cl_VCNID m) \<and> h' = k @ [Call_vcn_Delete (cl_VCNID m)]"
      if "GetOCIWithRegion env oke2 (cm_Location (modelCluster oke2)) h2 = (None, k)" for k
      using dc that by (simp add: DeletePreconfiguredVCN_def)
    from rest o None e1 e2 show ?thesis
      unfolding oke2_def [symmetric] h2_def [symmetric] by blast
  qed
  from a b show ?thesis unfolding oke1_def spec_def by blast
qed

text \<open>
  Claim C8. For every cluster, \<open>DeleteCluster\<close> takes its steps in this order. It sets the
  deleting flag on the stored cluster before any call: when no cluster manager can be
  obtained it returns that error, and the aggregate it leaves is the one given with the
  flag set. When a manager is obtained, the flagged cluster is submitted to it as the next
  call, and the aggregate holds the cluster as the manager left it. When the submission
  answers with an error, that error is returned and the submission is the last call. When
  it answers without an error, a client is asked for next; if there is none, that error is
  returned, and otherwise the network of the cluster is deleted as the last call and the
  answer of the deletion is returned. On the history: every cluster submitted is the stored
  one with the flag set, every deletion of the network is the last call and comes after a
  submission that answered without an error, with only client calls in between, and after a
  submission that answered with an error there is no deletion of the network.
\<close>

theorem DeleteCluster_order:
  assumes "DeleteCluster env oke h = (res, oke', h')"
  shows "(\<exists>new. h' = h @ new
     \<and> (\<forall>c. Call_ManageOKECluster c \<in> set new \<longrightarrow>
           c = (cm_OKE (modelCluster oke))\<lparr>cl_Delete := True\<rparr> \<and> cl_Delete c)
     \<and> (\<forall>v. Call_vcn_Delete v \<in> set new \<longrightarrow>
           (\<exists>pre post m.
              new = pre @ Call_ManageOKECluster ((cm_OKE (modelCluster oke))\<lparr>cl_Delete := True\<rparr>)
                      # post @ [Call_vcn_Delete v]
              \<and> ManageOKECluster env (h @ pre) ((cm_OKE (modelCluster oke))\<lparr>cl_Delete := True\<rparr>) = (m, None)
              \<and> v = cl_VCNID m
              \<and> list_all is_client_call pre \<and> list_all is_client_call post))
     \<and> (\<forall>pre post m err.
           new = pre @ Call_ManageOKECluster ((cm_OKE (modelCluster oke))\<lparr>cl_Delete := True\<rparr>) # post
           \<and> ManageOKECluster env (h @ pre) ((cm_OKE (modelCluster oke))\<lparr>cl_Delete := True\<rparr>) = (m, Some err)
           \<longrightarrow> res = Some err \<and> post = [] \<and> (\<forall>v. Call_vcn_Delete v \<notin> set new))
     \<and> (res = None \<longrightarrow> (\<exists>v. Call_vcn_Delete v \<in> set new)))
     \<and> (\<forall>err h1.
         GetClusterManager env
           (oke\<lparr>modelCluster := (modelCluster oke)\<lparr>cm_OKE := (cm_OKE (modelCluster oke))\<lparr>cl_Delete := True\<rparr>\<rparr>\<rparr>) h
           = (Some err, h1) \<longrightarrow>
         res = Some err \<and> h' = h1
         \<and> oke' = oke\<lparr>modelCluster := (modelCluster oke)\<lparr>cm_OKE := (cm_OKE (modelCluster oke))\<lparr>cl_Delete := True\<rparr>\<rparr>\<rparr>)
     \<and> (\<forall>h1 m r2.
         GetClusterManager env
           (oke\<lparr>modelCluster := (modelCluster oke)\<lparr>cm_OKE := (cm_OKE (modelCluster oke))\<lparr>cl_Delete := True\<rparr>\<rparr>\<rparr>) h
           = (None, h1)
         \<and> ManageOKECluster env h1 ((cm_OKE (modelCluster oke))\<lparr>cl_Delete := True\<rparr>) = (m, r2) \<longrightarrow>
         (\<exists>rest. h' = h1 @ Call_ManageOKECluster ((cm_OKE (modelCluster oke))\<lparr>cl_Delete := True\<rparr>) # rest)
         \<and> oke' = oke\<lparr>modelCluster := (modelCluster oke)\<lparr>cm_OKE := m\<rparr>\<rparr>
         \<and> (\<forall>err. r2 = Some err \<longrightarrow>
                res = Some err
                \<and> h' = h1 @ [Call_ManageOKECluster ((cm_OKE (modelCluster oke))\<lparr>cl_Delete := True\<rparr>)])
         \<and> (r2 = None \<longrightarrow>
               (\<forall>err h3.
                  GetOCIWithRegion env oke' (cm_Location (modelCluster oke'))
                    (h1 @ [Call_ManageOKECluster ((cm_OKE (modelCluster oke))\<lparr>cl_Delete := True\<rparr>)])
                    = (Some err, h3) \<longrightarrow>
                  res = Some err \<and> h' = h3)
               \<and> (\<forall>h3.
                  GetOCIWithRegion env oke' (cm_Location (modelCluster oke'))
                    (h1 @ [Call_ManageOKECluster ((cm_OKE (modelCluster oke))\<lparr>cl_Delete := True\<rparr>)])
                    = (None, h3) \<longrightarrow>
                  res = vcn_Delete env h3 (cl_VCNID m) \<and> h' = h3 @ [Call_vcn_Delete (cl_VCNID m)])))"
  using DeleteCluster_trace [OF assms] DeleteCluster_steps [OF assms] by (rule conjI)


theorem DeleteCluster_order_witness:
  "DeleteCluster env_ok oke0 [] =
     (None,
      oke0\<lparr>modelCluster := (modelCluster oke0)\<lparr>cm_OKE := cluster0\<lparr>cl_Delete := True\<rparr>\<rparr>\<rparr>,
      client_calls @ [Call_ManageOKECluster (cluster0\<lparr>cl_Delete := True\<rparr>)] @ client_calls
        @ [Call_vcn_Delete ''vcn1''])
   \<and> DeleteCluster env_apply_fails oke0 [] =
     (Some (Upstream ''apply failed''),
      oke0\<lparr>modelCluster := (modelCluster oke0)\<lparr>cm_OKE := cluster0\<lparr>cl_Delete := True\<rparr>\<rparr>\<rparr>,
      client_calls @ [Call_ManageOKECluster (cluster0\<lparr>cl_Delete := True\<rparr>)])
   \<and> Call_vcn_Delete ''vcn1''
        \<notin> set (client_calls @ [Call_ManageOKECluster (cluster0\<lparr>cl_Delete := True\<rparr>)])"
proof -
  define spec where "spec = (cm_OKE (modelCluster oke0))\<lparr>cl_Delete := True\<rparr>"
  define oke1 where "oke1 = oke0\<lparr>modelCluster := (modelCluster oke0)\<lparr>cm_OKE := spec\<rparr>\<rparr>"
  have spec: "spec = cluster0\<lparr>cl_Delete := True\<rparr>" by (simp add: spec_def oke0_def)
  have same: "oke0\<lparr>modelCluster := (modelCluster oke0)\<lparr>cm_OKE := spec\<rparr>\<rparr> = oke1" by (simp add: oke1_def)
  have loc: "cm_Location (modelCluster oke1) = ''eu-frankfurt-1''" by (simp add: oke1_def oke0_def)
  have vcn: "cl_VCNID spec = ''vcn1''" by (simp add: spec cluster0_def)
  have cc: "[] @ [Call_getSecret, Call_NewOCI, Call_ChangeRegion ''eu-frankfurt-1''] = client_calls"
    by (simp add: client_calls_def)
  have mgr_f: "GetClusterManager env_apply_fails oke1 [] = (None, client_calls)"
    unfolding GetClusterManager_def client_env_apply_fails loc cc by simp
  have app_f: "ManageOKECluster env_apply_fails client_calls spec = (spec, Some (Upstream ''apply failed''))"
    by (simp add: env_apply_fails_def env_ok_def)
  obtain rf okef hf where run_f: "DeleteCluster env_apply_fails oke0 [] = (rf, okef, hf)"
    by (cases "DeleteCluster env_apply_fails oke0 []")
  note tf = DeleteCluster_order [OF run_f, folded spec_def, unfolded same]
  note sf = tf [THEN conjunct2, THEN conjunct2, rule_format, OF conjI [OF mgr_f app_f]]
  from sf have of: "okef = oke1" by (simp add: oke1_def)
  from sf have "\<forall>err. Some (Upstream ''apply failed'') = Some err \<longrightarrow>
      rf = Some err \<and> hf = client_calls @ [Call_ManageOKECluster spec]"
    by (elim conjE)
  then have rhf: "rf = Some (Upstream ''apply failed'')" "hf = client_calls @ [Call_ManageOKECluster spec]"
    by simp_all
  have fails: "DeleteCluster env_apply_fails oke0 [] =
     (Some (Upstream ''apply failed''), oke1, client_calls @ [Call_ManageOKECluster spec])"
    using run_f of rhf by simp
  from tf [THEN conjunct1] obtain new where
    n: "hf = [] @ new"
    and c4: "\<forall>pre post m err.
           new = pre @ Call_ManageOKECluster spec # post
           \<and> ManageOKECluster env_apply_fails ([] @ pre) spec = (m, Some err)
           \<longrightarrow> rf = Some err \<and> post = [] \<and> (\<forall>v. Call_vcn_Delete v \<notin> set new)"
    by (elim exE conjE)
  from n rhf have new: "new = client_calls @ Call_ManageOKECluster spec # []" by simp
  from app_f have "ManageOKECluster env_apply_fails ([] @ client_calls) spec
      = (spec, Some (Upstream ''apply failed''))" by simp
  with c4 [rule_format, of client_calls "[]" spec "Upstream ''apply failed''"] new
  have "\<forall>v. Call_vcn_Delete v \<notin> set new" by blast
  then have nodel: "Call_vcn_Delete ''vcn1'' \<notin> set (client_calls @ [Call_ManageOKECluster spec])"
    using new by simp
  have mgr_o: "GetClusterManager env_ok oke1 [] = (None, client_calls)"
    unfolding GetClusterManager_def GetOCIWithRegion_env_ok loc cc by simp
  have app_o: "ManageOKECluster env_ok client_calls spec = (spec, None)"
    by (simp add: env_ok_def)
  obtain ro okeo ho where run_o: "DeleteCluster env_ok oke0 [] = (ro, okeo, ho)"
    by (cases "DeleteCluster env_ok oke0 []")
  note to = DeleteCluster_order [OF run_o, folded spec_def, unfolded same]
  note so = to [THEN conjunct2, THEN conjunct2, rule_format, OF conjI [OF mgr_o app_o]]
  from so have oo: "okeo = oke1" by (simp add: oke1_def)
  note del = so [THEN conjunct2, THEN conjunct2, THEN conjunct2, THEN mp, OF refl, THEN conjunct2,
      rule_format, OF GetOCIWithRegion_env_ok]
  from del have ro: "ro = None" by (simp add: env_ok_def)
  from del have "ho = (client_calls @ [Call_ManageOKECluster spec])
      @ [Call_getSecret, Call_NewOCI, Call_ChangeRegion (cm_Location (modelCluster okeo))]
      @ [Call_vcn_Delete (cl_VCNID spec)]"
    by simp
  then have ho: "ho = client_calls @ [Call_ManageOKECluster spec] @ client_calls @ [Call_vcn_Delete ''vcn1'']"
    by (simp add: oo loc vcn client_calls_def)
  have ok: "DeleteCluster env_ok oke0 [] =
     (None, oke1, client_calls @ [Call_ManageOKECluster spec] @ client_calls @ [Call_vcn_Delete ''vcn1''])"
    using run_o oo ro ho by simp
  from ok fails nodel show ?thesis
    unfolding oke1_def spec by (intro conjI)
qed

subsection \<open>Create\<close>

lemma CreateOKEClusterFromRequest_vcn_error:
  assumes "CreatePreconfiguredVCN env (newOKECluster env request orgId userId) (ccr_Name request) h
             = ((VCNID, Some err), h1)"
  shows "CreateOKEClusterFromRequest env request orgId userId h =
           Returns ((newOKECluster env request orgId userId, Some err), request, h1)"
  using assms by (simp add: CreateOKEClusterFromRequest_def Let_def)

lemma CreateOKEClusterFromRequest_populate_error:
  assumes "CreatePreconfiguredVCN env (newOKECluster env request orgId userId) (ccr_Name request) h
             = ((VCNID, None), h1)"
    and "PopulateNetworkValues env (newOKECluster env request orgId userId)
           (ccr_CreateClusterOKE request) VCNID h1 = Returns ((properties, Some err), h2)"
  shows "CreateOKEClusterFromRequest env request orgId userId h =
           Returns ((newOKECluster env request orgId userId, Some err),
                    request\<lparr>ccr_CreateClusterOKE := properties\<rparr>, h2)"
  using assms by (simp add: CreateOKEClusterFromRequest_def Let_def)

lemma CreateCluster_apply_error:
  assumes "GetClusterManager env oke h = (None, h1)"
    and "ManageOKECluster env h1 (cm_OKE (modelCluster oke)) = (m, Some err)"
  shows "CreateCluster env oke h =
           (Some (Wrap err ''error creating cluster''),
            oke\<lparr>modelCluster := (modelCluster oke)\<lparr>cm_OKE := m\<rparr>\<rparr>,
            h1 @ [Call_ManageOKECluster (cm_OKE (modelCluster oke))])"
  using assms by (simp add: CreateCluster_def Let_def)

lemma CreateCluster_binding_error:
  assumes "GetClusterManager env oke h = (None, h1)"
    and "ManageOKECluster env h1 (cm_OKE (modelCluster oke)) = (m, None)"
    and "setClusterAdminRights env (oke\<lparr>modelCluster := (modelCluster oke)\<lparr>cm_OKE := m\<rparr>\<rparr>)
           ''cluster-creator-admin-right'' (h1 @ [Call_ManageOKECluster (cm_OKE (modelCluster oke))])
         = (Some err, h3)"
  shows "CreateCluster env oke h =
           (Some (WithMessage err ''error get/create clusterrolebinding''),
            oke\<lparr>modelCluster := (modelCluster oke)\<lparr>cm_OKE := m\<rparr>\<rparr>, h3)"
  using assms by (simp add: CreateCluster_def Let_def)

lemma vcn_env_vcn_fails:
  "CreatePreconfiguredVCN env_vcn_fails (newOKECluster env_vcn_fails create_req0 1 1) (ccr_Name create_req0) []
     = (([], Some (Upstream ''vcn create failed'')), client_calls @ [Call_vcn_Create ''p-demo''])"
  unfolding CreatePreconfiguredVCN_def client_env_vcn_fails
  by (simp add: newOKECluster_def create_req0_def client_calls_def)
    (simp add: env_vcn_fails_def env_ok_def create_req0_def)

text \<open>
  Claim C6, as stated: the error of every failing step of the create sequence reaches the
  caller wrapped with the context of its stage. It fails at the first step: when the network
  manager refuses to create the virtual network, \<open>CreateOKEClusterFromRequest\<close> returns the
  manager's error itself.
\<close>

theorem create_stage_errors_counterexample:
  "returned_error (CreateOKEClusterFromRequest env_vcn_fails create_req0 1 1 [])
     = Some (Upstream ''vcn create failed'')
   \<and> \<not> is_wrapped (Upstream ''vcn create failed'')"
  by (simp add: CreateOKEClusterFromRequest_vcn_error [OF vcn_env_vcn_fails] returned_error_def)

text \<open>
  Claim C6, amended. Each failing step of the create sequence ends the operation at once:
  the history is the one the failing step left, with no later call. The error of the engine
  apply comes back wrapped with the message "error creating cluster" and the error of the
  role binding wrapped with "error get/create clusterrolebinding"; the errors of the
  virtual-network creation and of the network-value population come back as they are.
\<close>

theorem create_stage_errors:
  "(\<forall>VCNID err h1.
      CreatePreconfiguredVCN env (newOKECluster env request orgId userId) (ccr_Name request) h
        = ((VCNID, Some err), h1) \<longrightarrow>
      CreateOKEClusterFromRequest env request orgId userId h =
        Returns ((newOKECluster env request orgId userId, Some err), request, h1))
   \<and> (\<forall>VCNID h1 properties err h2.
      CreatePreconfiguredVCN env (newOKECluster env request orgId userId) (ccr_Name request) h
        = ((VCNID, None), h1)
      \<and> PopulateNetworkValues env (newOKECluster env request orgId userId)
            (ccr_CreateClusterOKE request) VCNID h1 = Returns ((properties, Some err), h2) \<longrightarrow>
      CreateOKEClusterFromRequest env request orgId userId h =
        Returns ((newOKECluster env request orgId userId, Some err),
                 request\<lparr>ccr_CreateClusterOKE := properties\<rparr>, h2))
   \<and> (\<forall>h1 m err.
      GetClusterManager env oke h = (None, h1)
      \<and> ManageOKECluster env h1 (cm_OKE (modelCluster oke)) = (m, Some err) \<longrightarrow>
      CreateCluster env oke h =
        (Some (Wrap err ''error creating cluster''),
         oke\<lparr>modelCluster := (modelCluster oke)\<lparr>cm_OKE := m\<rparr>\<rparr>,
         h1 @ [Call_ManageOKECluster (cm_OKE (modelCluster oke))]))
   \<and> (\<forall>h1 m err h3.
      GetClusterManager env oke h = (None, h1)
      \<and> ManageOKECluster env h1 (cm_OKE (modelCluster oke)) = (m, None)
      \<and> setClusterAdminRights env (oke\<lparr>modelCluster := (modelCluster oke)\<lparr>cm_OKE := m\<rparr>\<rparr>)
            ''cluster-creator-admin-right'' (h1 @ [Call_ManageOKECluster (cm_OKE (modelCluster oke))])
          = (Some err, h3) \<longrightarrow>
      CreateCluster env oke h =
        (Some (WithMessage err ''error get/create clusterrolebinding''),
         oke\<lparr>modelCluster := (modelCluster oke)\<lparr>cm_OKE := m\<rparr>\<rparr>, h3))"
proof (intro conjI allI impI)
  fix VCNID err h1
  assume "CreatePreconfiguredVCN env (newOKECluster env request orgId userId) (ccr_Name request) h
        = ((VCNID, Some err), h1)"
  then show "CreateOKEClusterFromRequest env request orgId userId h =
        Returns ((newOKECluster env request orgId userId, Some err), request, h1)"
    by (rule CreateOKEClusterFromRequest_vcn_error)
next
  fix VCNID h1 properties err h2
  assume "CreatePreconfiguredVCN env (newOKECluster env request orgId userId) (ccr_Name request) h
        = ((VCNID, None), h1)
      \<and> PopulateNetworkValues env (newOKECluster env request orgId userId)
            (ccr_CreateClusterOKE request) VCNID h1 = Returns ((properties, Some err), h2)"
  then show "CreateOKEClusterFromRequest env request orgId userId h =
        Returns ((newOKECluster env request orgId userId, Some err),
                 request\<lparr>ccr_CreateClusterOKE := properties\<rparr>, h2)"
    by (elim conjE) (rule CreateOKEClusterFromRequest_populate_error; assumption)
next
  fix h1 m err
  assume "GetClusterManager env oke h = (None, h1)
      \<and> ManageOKECluster env h1 (cm_OKE (modelCluster oke)) = (m, Some err)"
  then show "CreateCluster env oke h =
        (Some (Wrap err ''error creating cluster''),
         oke\<lparr>modelCluster := (modelCluster oke)\<lparr>cm_OKE := m\<rparr>\<rparr>,
         h1 @ [Call_ManageOKECluster (cm_OKE (modelCluster oke))])"
    by (elim conjE) (rule CreateCluster_apply_error; assumption)
next
  fix h1 m err h3
  assume "GetClusterManager env oke h = (None, h1)
      \<and> ManageOKECluster env h1 (cm_OKE (modelCluster oke)) = (m, None)
      \<and> setClusterAdminRights env (oke\<lparr>modelCluster := (modelCluster oke)\<lparr>cm_OKE := m\<rparr>\<rparr>)
            ''cluster-creator-admin-right'' (h1 @ [Call_ManageOKECluster (cm_OKE (modelCluster oke))])
          = (Some err, h3)"
  then show "CreateCluster env oke h =
        (Some (WithMessage err ''error get/create clusterrolebinding''),
         oke\<lparr>modelCluster := (modelCluster oke)\<lparr>cm_OKE := m\<rparr>\<rparr>, h3)"
    by (elim conjE) (rule CreateCluster_binding_error; assumption)
qed

lemma vcn_env_one_lb:
  "CreatePreconfiguredVCN env_one_lb (newOKECluster env_one_lb create_req0 1 1) (ccr_Name create_req0) []
     = ((''vcn1'', None), client_calls @ [Call_vcn_Create ''p-demo''])"
  unfolding CreatePreconfiguredVCN_def client_env_one_lb
  by (simp add: newOKECluster_def create_req0_def client_calls_def)
    (simp add: env_one_lb_def env_ok_def create_req0_def)

lemma populate_env_one_lb:
  "PopulateNetworkValues env_one_lb (newOKECluster env_one_lb create_req0 1 1)
     (ccr_CreateClusterOKE create_req0) ''vcn1'' (client_calls @ [Call_vcn_Create ''p-demo''])
   = Returns ((req_cluster0\<lparr>rc_vcnID := ''vcn1''\<rparr>, Some ConfigError),
              client_calls @ [Call_vcn_Create ''p-demo''] @ client_calls
                @ [Call_vcn_GetNetworkValues ''vcn1''])"
proof -
  let ?oke = "newOKECluster env_one_lb create_req0 1 1"
  let ?h = "client_calls @ [Call_vcn_Create ''p-demo'']"
  have q: "vcn_GetNetworkValues env_one_lb
             (?h @ [Call_getSecret, Call_NewOCI, Call_ChangeRegion (cm_Location (modelCluster ?oke))]) ''vcn1''
           = Inr nv_one_lb"
    by (simp add: env_one_lb_def env_ok_def)
  have loc: "cm_Location (modelCluster ?oke) = ''eu-frankfurt-1''"
    by (simp add: newOKECluster_def create_req0_def)
  show ?thesis
    using PopulateNetworkValues_after_query [OF client_env_one_lb q, of "ccr_CreateClusterOKE create_req0"]
    by (simp add: nv_one_lb_def create_req0_def client_calls_def newOKECluster_def)
qed

lemma manager_env_apply_fails:
  "GetClusterManager env_apply_fails oke0 [] = (None, client_calls)"
  unfolding GetClusterManager_def client_env_apply_fails
  by (simp add: client_calls_def oke0_def)

lemma manager_env_binding_fails:
  "GetClusterManager env_binding_fails oke0 [] = (None, client_calls)"
  unfolding GetClusterManager_def client_env_binding_fails
  by (simp add: client_calls_def oke0_def)

theorem create_stage_errors_witness:
  "returned_error (CreateOKEClusterFromRequest env_vcn_fails create_req0 1 1 [])
     = Some (Upstream ''vcn create failed'')
   \<and> returned_error (CreateOKEClusterFromRequest env_one_lb create_req0 1 1 []) = Some ConfigError
   \<and> fst (CreateCluster env_apply_fails oke0 [])
     = Some (Wrap (Upstream ''apply failed'') ''error creating cluster'')
   \<and> fst (CreateCluster env_binding_fails oke0 [])
     = Some (WithMessage (Wrap (Upstream ''binding refused'') ''creating cluster role binding failed'')
               ''error get/create clusterrolebinding'')"
proof -
  have a1: "ManageOKECluster env_apply_fails client_calls (cm_OKE (modelCluster oke0))
              = (cluster0, Some (Upstream ''apply failed''))"
    by (simp add: env_apply_fails_def env_ok_def oke0_def)
  have b1: "ManageOKECluster env_binding_fails client_calls (cm_OKE (modelCluster oke0))
              = (cluster0, None)"
    by (simp add: env_binding_fails_def env_ok_def oke0_def)
  have b2: "setClusterAdminRights env_binding_fails
              (oke0\<lparr>modelCluster := (modelCluster oke0)\<lparr>cm_OKE := cluster0\<rparr>\<rparr>)
              ''cluster-creator-admin-right''
              (client_calls @ [Call_ManageOKECluster (cm_OKE (modelCluster oke0))])
            = (Some (Wrap (Upstream ''binding refused'') ''creating cluster role binding failed''),
               client_calls @ [Call_ManageOKECluster (cm_OKE (modelCluster oke0))]
                 @ [Call_getConfig, Call_GetK8sConnection, Call_getSecret,
                    Call_CreateClusterRoleBinding ''cluster-creator-admin-right'' ''ocid1.user''])"
    by (simp add: setClusterAdminRights_def env_binding_fails_def env_ok_def secret_value_def Let_def)
  note t1 = create_stage_errors [where env = env_vcn_fails and request = create_req0 and orgId = 1
      and userId = 1 and h = "[]" and oke = oke0]
  note t2 = create_stage_errors [where env = env_one_lb and request = create_req0 and orgId = 1
      and userId = 1 and h = "[]" and oke = oke0]
  note t3 = create_stage_errors [where env = env_apply_fails and request = create_req0 and orgId = 1
      and userId = 1 and h = "[]" and oke = oke0]
  note t4 = create_stage_errors [where env = env_binding_fails and request = create_req0 and orgId = 1
      and userId = 1 and h = "[]" and oke = oke0]
  have r1: "CreateOKEClusterFromRequest env_vcn_fails create_req0 1 1 [] =
        Returns ((newOKECluster env_vcn_fails create_req0 1 1, Some (Upstream ''vcn create failed'')),
                 create_req0, client_calls @ [Call_vcn_Create ''p-demo''])"
    using t1 vcn_env_vcn_fails by blast
  have r2: "CreateOKEClusterFromRequest env_one_lb create_req0 1 1 [] =
        Returns ((newOKECluster env_one_lb create_req0 1 1, Some ConfigError),
                 create_req0\<lparr>ccr_CreateClusterOKE := req_cluster0\<lparr>rc_vcnID := ''vcn1''\<rparr>\<rparr>,
                 client_calls @ [Call_vcn_Create ''p-demo''] @ client_calls
                   @ [Call_vcn_GetNetworkValues ''vcn1''])"
    using t2 vcn_env_one_lb populate_env_one_lb by blast
  have r3: "CreateCluster env_apply_fails oke0 [] =
        (Some (Wrap (Upstream ''apply failed'') ''error creating cluster''),
         oke0\<lparr>modelCluster := (modelCluster oke0)\<lparr>cm_OKE := cluster0\<rparr>\<rparr>,
         client_calls @ [Call_ManageOKECluster (cm_OKE (modelCluster oke0))])"
    using t3 manager_env_apply_fails a1 by blast
  have r4: "CreateCluster env_binding_fails oke0 [] =
        (Some (WithMessage (Wrap (Upstream ''binding refused'') ''creating cluster role binding failed'')
                 ''error get/create clusterrolebinding''),
         oke0\<lparr>modelCluster := (modelCluster oke0)\<lparr>cm_OKE := cluster0\<rparr>\<rparr>,
         client_calls @ [Call_ManageOKECluster (cm_OKE (modelCluster oke0))]
                 @ [Call_getConfig, Call_GetK8sConnection, Call_getSecret,
                    Call_CreateClusterRoleBinding ''cluster-creator-admin-right'' ''ocid1.user''])"
    using t4 manager_env_binding_fails b1 b2 by blast
  show ?thesis by (simp add: r1 r2 r3 r4 returned_error_def)
qed

end
